theory Spec2Isabelle
  imports Main "HOL-Library.Sublist" "HOL-Library.AList"
begin

section \<open>The service worker \<^verbatim>\<open>sw.js\<close>: a multi-strategy response cache\<close>

text \<open>
  The worker is event driven: the browser calls its listeners (install, activate, fetch,
  message) and the listeners call the browser's \<^verbatim>\<open>fetch\<close>, \<^verbatim>\<open>caches\<close> and
  \<^verbatim>\<open>clients\<close> interfaces. The embedding passes the state of the world explicitly:
  every function takes the platform (what the network and the storage answer) and the
  world (the cache partitions, a trace of the platform calls made, the console) and
  returns the settlement of its promise together with the new world. A promise that
  rejects and an exception that is thrown are the value \<open>Rejected\<close>; every
  \<^verbatim>\<open>try/catch\<close> and \<^verbatim>\<open>.catch\<close> of the source is a branch on it.
\<close>

subsection \<open>Strings\<close>

text \<open>
  \<^verbatim>\<open>String.prototype.startsWith\<close>, \<^verbatim>\<open>endsWith\<close> and \<^verbatim>\<open>includes\<close>, on
  strings as lists of characters: the receiver first, the searched string second.
\<close>

fun startsWith :: "string \<Rightarrow> string \<Rightarrow> bool" where
  "startsWith s [] = True"
| "startsWith [] (p # ps) = False"
| "startsWith (c # cs) (p # ps) = (c = p \<and> startsWith cs ps)"

definition endsWith :: "string \<Rightarrow> string \<Rightarrow> bool" where
  "endsWith s p = (length p \<le> length s \<and> drop (length s - length p) s = p)"

fun includesStr :: "string \<Rightarrow> string \<Rightarrow> bool" where
  "includesStr [] p = (p = [])"
| "includesStr (c # cs) p = (startsWith (c # cs) p \<or> includesStr cs p)"

subsection \<open>Requests, responses and JavaScript values\<close>

record request =
  url :: string
  method' :: string
  mode :: string

record response =
  status :: nat
  statusText :: string
  headers :: "(string \<times> string) list"
  body :: string

text \<open>\<^verbatim>\<open>Response.ok\<close>: the status is in the range 200..299.\<close>

definition ok :: "response \<Rightarrow> bool" where
  "ok r = (200 \<le> status r \<and> status r \<le> 299)"

text \<open>
  \<^verbatim>\<open>new Response(body, init)\<close>: the status is 200 and the status text empty unless
  \<^verbatim>\<open>init\<close> gives them; only the headers that the code passes are recorded.
\<close>

definition newResponse ::
  "string \<Rightarrow> nat option \<Rightarrow> string option \<Rightarrow> (string \<times> string) list \<Rightarrow> response" where
  "newResponse b st stText hs =
     \<lparr>status = (case st of None \<Rightarrow> 200 | Some n \<Rightarrow> n),
      statusText = (case stText of None \<Rightarrow> [] | Some t \<Rightarrow> t),
      headers = hs, body = b\<rparr>"

text \<open>How a promise settles: fulfilled with a value, or rejected with an error message.\<close>

datatype 'a settled = Fulfilled 'a | Rejected string

text \<open>
  The values the strategies handle: \<^verbatim>\<open>undefined\<close>, \<^verbatim>\<open>null\<close>, a
  \<^verbatim>\<open>Response\<close>, and a promise (with the way it will settle). Every object is truthy
  in JavaScript, a promise included, whatever it settles to; \<^verbatim>\<open>a || b\<close> is
  \<^verbatim>\<open>a\<close> when \<^verbatim>\<open>a\<close> is truthy and \<^verbatim>\<open>b\<close> otherwise.
\<close>

datatype jsval = Undefined | Null | Resp response | Promise "jsval settled"

fun truthy :: "jsval \<Rightarrow> bool" where
  "truthy Undefined = False"
| "truthy Null = False"
| "truthy (Resp r) = True"
| "truthy (Promise p) = True"

definition js_or :: "jsval \<Rightarrow> jsval \<Rightarrow> jsval" where
  "js_or a b = (if truthy a then a else b)"

text \<open>
  \<^verbatim>\<open>return v\<close> in an \<^verbatim>\<open>async\<close> function: the function's promise is
  fulfilled with \<^verbatim>\<open>v\<close>, unless \<^verbatim>\<open>v\<close> is itself a promise, which it then follows.
\<close>

fun async_return :: "jsval \<Rightarrow> jsval settled" where
  "async_return (Promise p) = p"
| "async_return v = Fulfilled v"

subsection \<open>The platform and the world\<close>

text \<open>The calls the worker makes to the platform; the world keeps them in order.\<close>

datatype platform_op =
    Fetch string
  | CachesOpen string
  | CachesKeys
  | CachesDelete string
  | CachesMatch string
  | CacheAddAll string "string list"
  | CachePut string string
  | CacheKeys string
  | CacheMatch string string
  | Blob string string
  | SkipWaiting
  | ClientsClaim

datatype level = Log | Warn | Error

record cache_detail =
  itemCount :: nat
  size_bytes :: nat

record cache_status =
  cacheNames :: "string list"
  totalSize :: nat
  cacheDetails :: "(string \<times> cache_detail) list"

text \<open>What \<^verbatim>\<open>getCacheStatus\<close> returns: the status object, or \<^verbatim>\<open>{ error: message }\<close>.\<close>

datatype reply = Status cache_status | ErrorReply string

text \<open>
  The platform: its URL parser, which turns a request given as a string (a path such as
  \<^verbatim>\<open>'/offline.html'\<close>, a relative or an absolute URL) into the absolute URL of
  the request, with the worker's own location as the base; the network, which for a URL
  answers with a response or fails (\<open>None\<close>: \<^verbatim>\<open>fetch\<close> rejects); and for every
  other call whether it fails, and with which message.
\<close>

record platform =
  resolveUrl :: "string \<Rightarrow> string"
  net :: "string \<Rightarrow> response option"
  faults :: "platform_op \<Rightarrow> string option"

text \<open>
  The world: the cache partitions in creation order, each a list of entries (request URL,
  response) in insertion order; the platform calls made so far; the console; the
  messages posted to reply ports.
\<close>

record world =
  caches :: "(string \<times> (string \<times> response) list) list"
  calls :: "platform_op list"
  console :: "(level \<times> string) list"
  posted :: "(nat \<times> reply) list"

definition call :: "platform_op \<Rightarrow> world \<Rightarrow> world" where
  "call op' w = w\<lparr>calls := calls w @ [op']\<rparr>"

definition console_log :: "world \<Rightarrow> string \<Rightarrow> world" where
  "console_log w m = w\<lparr>console := console w @ [(Log, m)]\<rparr>"

definition console_warn :: "world \<Rightarrow> string \<Rightarrow> world" where
  "console_warn w m = w\<lparr>console := console w @ [(Warn, m)]\<rparr>"

definition console_error :: "world \<Rightarrow> string \<Rightarrow> world" where
  "console_error w m = w\<lparr>console := console w @ [(Error, m)]\<rparr>"

text \<open>\<^verbatim>\<open>fetch(request)\<close>: the call is recorded; it rejects when the network fails.\<close>

definition fetch :: "platform \<Rightarrow> world \<Rightarrow> string \<Rightarrow> response settled \<times> world" where
  "fetch env w u =
     (case net env u of
        None \<Rightarrow> (Rejected ''Failed to fetch'', call (Fetch u) w)
      | Some r \<Rightarrow> (Fulfilled r, call (Fetch u) w))"

text \<open>The entries of a partition (none when there is no such partition).\<close>

definition entries :: "world \<Rightarrow> string \<Rightarrow> (string \<times> response) list" where
  "entries w n = (case map_of (caches w) n of None \<Rightarrow> [] | Some c \<Rightarrow> c)"

text \<open>
  \<^verbatim>\<open>caches.match(request)\<close>: the partitions are searched in creation order and the
  first entry for the URL is the answer, \<^verbatim>\<open>undefined\<close> when there is none.
\<close>

fun match_all :: "(string \<times> (string \<times> response) list) list \<Rightarrow> string \<Rightarrow> jsval" where
  "match_all [] u = Undefined"
| "match_all ((n, c) # cs) u =
     (case map_of c u of Some r \<Rightarrow> Resp r | None \<Rightarrow> match_all cs u)"

definition caches_match :: "platform \<Rightarrow> world \<Rightarrow> string \<Rightarrow> jsval settled \<times> world" where
  "caches_match env w u =
     (case faults env (CachesMatch u) of
        Some e \<Rightarrow> (Rejected e, call (CachesMatch u) w)
      | None \<Rightarrow> (Fulfilled (match_all (caches w) u), call (CachesMatch u) w))"

text \<open>\<^verbatim>\<open>caches.open(name)\<close>: the partition is created, empty, when it does not exist.
  The cache object it gives is modelled by the partition's name.\<close>

definition caches_open :: "platform \<Rightarrow> world \<Rightarrow> string \<Rightarrow> string settled \<times> world" where
  "caches_open env w n =
     (case faults env (CachesOpen n) of
        Some e \<Rightarrow> (Rejected e, call (CachesOpen n) w)
      | None \<Rightarrow>
          (Fulfilled n,
           call (CachesOpen n)
             (if n \<in> set (map fst (caches w)) then w
              else w\<lparr>caches := caches w @ [(n, [])]\<rparr>)))"

definition caches_keys :: "platform \<Rightarrow> world \<Rightarrow> string list settled \<times> world" where
  "caches_keys env w =
     (case faults env CachesKeys of
        Some e \<Rightarrow> (Rejected e, call CachesKeys w)
      | None \<Rightarrow> (Fulfilled (map fst (caches w)), call CachesKeys w))"

text \<open>\<^verbatim>\<open>caches.delete(name)\<close>: fulfilled with whether the partition existed.\<close>

definition caches_delete :: "platform \<Rightarrow> world \<Rightarrow> string \<Rightarrow> bool settled \<times> world" where
  "caches_delete env w n =
     (case faults env (CachesDelete n) of
        Some e \<Rightarrow> (Rejected e, call (CachesDelete n) w)
      | None \<Rightarrow>
          (Fulfilled (n \<in> set (map fst (caches w))),
           call (CachesDelete n) (w\<lparr>caches := filter (\<lambda>p. fst p \<noteq> n) (caches w)\<rparr>)))"

text \<open>
  \<^verbatim>\<open>cache.put(request, response)\<close>: an entry for the same URL is replaced, the new
  entry is the partition's last.
\<close>

definition put_entry ::
  "string \<Rightarrow> response \<Rightarrow> (string \<times> response) list \<Rightarrow> (string \<times> response) list" where
  "put_entry u r c = filter (\<lambda>e. fst e \<noteq> u) c @ [(u, r)]"

definition store ::
  "string \<Rightarrow> string \<Rightarrow> response \<Rightarrow> world \<Rightarrow> world" where
  "store n u r w =
     w\<lparr>caches := map (\<lambda>p. if fst p = n then (fst p, put_entry u r (snd p)) else p) (caches w)\<rparr>"

definition cache_put ::
  "platform \<Rightarrow> world \<Rightarrow> string \<Rightarrow> string \<Rightarrow> response \<Rightarrow> unit settled \<times> world" where
  "cache_put env w n u r =
     (case faults env (CachePut n u) of
        Some e \<Rightarrow> (Rejected e, call (CachePut n u) w)
      | None \<Rightarrow> (Fulfilled (), call (CachePut n u) (store n u r w)))"

text \<open>
  \<^verbatim>\<open>cache.addAll(requests)\<close>: every request is fetched; unless every fetch answers
  with an ok response the promise rejects and nothing is stored.
\<close>

fun fetch_each :: "platform \<Rightarrow> world \<Rightarrow> string list \<Rightarrow> response settled list \<times> world" where
  "fetch_each env w [] = ([], w)"
| "fetch_each env w (u # us) =
     (case fetch env w u of (r, w1) \<Rightarrow>
        (case fetch_each env w1 us of (rs, w2) \<Rightarrow> (r # rs, w2)))"

fun all_ok :: "response settled list \<Rightarrow> response list option" where
  "all_ok [] = Some []"
| "all_ok (Rejected e # rs) = None"
| "all_ok (Fulfilled r # rs) =
     (if ok r then (case all_ok rs of None \<Rightarrow> None | Some xs \<Rightarrow> Some (r # xs)) else None)"

fun store_each :: "string \<Rightarrow> (string \<times> response) list \<Rightarrow> world \<Rightarrow> world" where
  "store_each n [] w = w"
| "store_each n ((u, r) # es) w = store_each n es (store n u r w)"

definition cache_addAll ::
  "platform \<Rightarrow> world \<Rightarrow> string \<Rightarrow> string list \<Rightarrow> unit settled \<times> world" where
  "cache_addAll env w n paths =
     (case faults env (CacheAddAll n paths) of
        Some e \<Rightarrow> (Rejected e, call (CacheAddAll n paths) w)
      | None \<Rightarrow>
          (case fetch_each env (call (CacheAddAll n paths) w) (map (resolveUrl env) paths) of
             (rs, w1) \<Rightarrow>
               (case all_ok rs of
                  None \<Rightarrow> (Rejected ''Request failed'', w1)
                | Some xs \<Rightarrow>
                    (Fulfilled (), store_each n (zip (map (resolveUrl env) paths) xs) w1))))"

definition cache_keys :: "platform \<Rightarrow> world \<Rightarrow> string \<Rightarrow> string list settled \<times> world" where
  "cache_keys env w n =
     (case faults env (CacheKeys n) of
        Some e \<Rightarrow> (Rejected e, call (CacheKeys n) w)
      | None \<Rightarrow> (Fulfilled (map fst (entries w n)), call (CacheKeys n) w))"

definition cache_match ::
  "platform \<Rightarrow> world \<Rightarrow> string \<Rightarrow> string \<Rightarrow> jsval settled \<times> world" where
  "cache_match env w n u =
     (case faults env (CacheMatch n u) of
        Some e \<Rightarrow> (Rejected e, call (CacheMatch n u) w)
      | None \<Rightarrow>
          (Fulfilled (case map_of (entries w n) u of None \<Rightarrow> Undefined | Some r \<Rightarrow> Resp r),
           call (CacheMatch n u) w))"

text \<open>\<^verbatim>\<open>response.blob()\<close> of an entry, read for its \<^verbatim>\<open>size\<close>: the bytes of the body.\<close>

definition blob :: "platform \<Rightarrow> world \<Rightarrow> string \<Rightarrow> string \<Rightarrow> response \<Rightarrow> nat settled \<times> world" where
  "blob env w n u r =
     (case faults env (Blob n u) of
        Some e \<Rightarrow> (Rejected e, call (Blob n u) w)
      | None \<Rightarrow> (Fulfilled (length (body r)), call (Blob n u) w))"

definition skipWaiting :: "platform \<Rightarrow> world \<Rightarrow> unit settled \<times> world" where
  "skipWaiting env w =
     (case faults env SkipWaiting of
        Some e \<Rightarrow> (Rejected e, call SkipWaiting w)
      | None \<Rightarrow> (Fulfilled (), call SkipWaiting w))"

definition clients_claim :: "platform \<Rightarrow> world \<Rightarrow> unit settled \<times> world" where
  "clients_claim env w =
     (case faults env ClientsClaim of
        Some e \<Rightarrow> (Rejected e, call ClientsClaim w)
      | None \<Rightarrow> (Fulfilled (), call ClientsClaim w))"

text \<open>\<^verbatim>\<open>Promise.all\<close>: the values when every promise is fulfilled, the first rejection
  otherwise.\<close>

fun promise_all :: "'a settled list \<Rightarrow> 'a list settled" where
  "promise_all [] = Fulfilled []"
| "promise_all (Rejected e # ps) = Rejected e"
| "promise_all (Fulfilled x # ps) =
     (case promise_all ps of Rejected e \<Rightarrow> Rejected e | Fulfilled xs \<Rightarrow> Fulfilled (x # xs))"

subsection \<open>Configuration\<close>

definition CACHE_NAME :: string where
  "CACHE_NAME = ''invomodo-v1.0.0''"

definition STATIC_CACHE_NAME :: string where
  "STATIC_CACHE_NAME = ''invomodo-static-v1.0.0''"

definition RUNTIME_CACHE_NAME :: string where
  "RUNTIME_CACHE_NAME = ''invomodo-runtime-v1.0.0''"

definition STATIC_ASSETS :: "string list" where
  "STATIC_ASSETS =
     [''/'', ''/index.html'', ''/manifest.json'', ''/firebase_auth.js'',
      ''/pkg/secure_pwa.js'', ''/pkg/secure_pwa_bg.wasm'']"

definition NETWORK_FIRST_ROUTES :: "string list" where
  "NETWORK_FIRST_ROUTES = [''/api/'', ''/auth/'']"

definition CACHE_FIRST_ROUTES :: "string list" where
  "CACHE_FIRST_ROUTES = [''/static/'', ''/icons/'', ''/assets/'']"

subsection \<open>Route predicates\<close>

definition isNetworkFirstRoute :: "string \<Rightarrow> bool" where
  "isNetworkFirstRoute u = list_ex (\<lambda>route. includesStr u route) NETWORK_FIRST_ROUTES"

definition isCacheFirstRoute :: "string \<Rightarrow> bool" where
  "isCacheFirstRoute u = list_ex (\<lambda>route. includesStr u route) CACHE_FIRST_ROUTES"

definition isStaticAsset :: "string \<Rightarrow> bool" where
  "isStaticAsset u = list_ex (\<lambda>asset. endsWith u asset) STATIC_ASSETS"

subsection \<open>The offline page\<close>

text \<open>
  \<^verbatim>\<open>getOfflineHTML\<close> returns a template literal: a line break, the lines below, each
  ended by a line break, and two spaces. The text is given as the bytes of its UTF-8
  encoding (the icon is the only character outside ASCII).
\<close>

definition offline_lines :: "string list" where
  \<open>offline_lines =
    [
     ''    <!DOCTYPE html>'',
     ''    <html lang="en">'',
     ''    <head>'',
     ''        <meta charset="UTF-8">'',
     ''        <meta name="viewport" content="width=device-width, initial-scale=1.0">'',
     ''        <title>Offline - SecurePWA</title>'',
     ''        <style>'',
     ''            body { '',
     ''                font-family: -apple-system, BlinkMacSystemFont, '' @ [CHR 0x27] @ ''Segoe UI'' @ [CHR 0x27] @ '', Roboto, sans-serif;'',
     ''                margin: 0; '',
     ''                padding: 0; '',
     ''                background: linear-gradient(135deg, #667eea 0%, #764ba2 100%);'',
     ''                min-height: 100vh;'',
     ''                display: flex;'',
     ''                align-items: center;'',
     ''                justify-content: center;'',
     ''                color: white;'',
     ''                text-align: center;'',
     ''            }'',
     ''            .container { '',
     ''                max-width: 400px; '',
     ''                padding: 2rem;'',
     ''                background: rgba(255, 255, 255, 0.1);'',
     ''                backdrop-filter: blur(10px);'',
     ''                border-radius: 20px;'',
     ''                border: 1px solid rgba(255, 255, 255, 0.2);'',
     ''            }'',
     ''            h1 { '',
     ''                font-size: 2.5rem; '',
     ''                margin-bottom: 1rem;'',
     ''                font-weight: 300;'',
     ''            }'',
     ''            p { '',
     ''                font-size: 1.1rem; '',
     ''                line-height: 1.6;'',
     ''                margin-bottom: 2rem;'',
     ''                opacity: 0.9;'',
     ''            }'',
     ''            .retry-btn {'',
     ''                background: rgba(255, 255, 255, 0.2);'',
     ''                border: 1px solid rgba(255, 255, 255, 0.3);'',
     ''                color: white;'',
     ''                padding: 12px 24px;'',
     ''                border-radius: 25px;'',
     ''                cursor: pointer;'',
     ''                font-size: 1rem;'',
     ''                transition: all 0.3s ease;'',
     ''            }'',
     ''            .retry-btn:hover {'',
     ''                background: rgba(255, 255, 255, 0.3);'',
     ''                transform: translateY(-2px);'',
     ''            }'',
     ''            .offline-icon {'',
     ''                font-size: 4rem;'',
     ''                margin-bottom: 1rem;'',
     ''                animation: pulse 2s infinite;'',
     ''            }'',
     ''            @keyframes pulse {'',
     ''                0% { opacity: 1; }'',
     ''                50% { opacity: 0.5; }'',
     ''                100% { opacity: 1; }'',
     ''            }'',
     ''        </style>'',
     ''    </head>'',
     ''    <body>'',
     ''        <div class="container">'',
     ''            <div class="offline-icon">'' @ [CHR 0xF0] @ [CHR 0x9F] @ [CHR 0x93] @ [CHR 0xA1] @ ''</div>'',
     ''            <h1>You'' @ [CHR 0x27] @ ''re Offline</h1>'',
     ''            <p>It looks like you'' @ [CHR 0x27] @ ''re not connected to the internet. Some features may not be available, but you can still use cached content.</p>'',
     ''            <button class="retry-btn" onclick="location.reload()">Try Again</button>'',
     ''        </div>'',
     ''        '',
     ''        <script>'',
     ''            // Auto-retry when connection is restored'',
     ''            window.addEventListener('' @ [CHR 0x27] @ ''online'' @ [CHR 0x27] @ '', () => {'',
     ''                location.reload();'',
     ''            });'',
     ''            '',
     ''            // Show connection status'',
     ''            if (navigator.onLine) {'',
     ''                document.querySelector('' @ [CHR 0x27] @ ''p'' @ [CHR 0x27] @ '').textContent = '' @ [CHR 0x27] @ ''Connection restored! Reloading...'' @ [CHR 0x27] @ '';'',
     ''                setTimeout(() => location.reload(), 1000);'',
     ''            }'',
     ''        </script>'',
     ''    </body>'',
     ''    </html>''
    ]\<close>

definition getOfflineHTML :: string where
  "getOfflineHTML =
     [CHR 0x0A] @ concat (map (\<lambda>l. l @ [CHR 0x0A]) offline_lines) @ ''  ''"

subsection \<open>Strategies\<close>

text \<open>
  An \<^verbatim>\<open>await\<close> of a rejected promise throws: outside a \<^verbatim>\<open>try\<close> the function's own
  promise is rejected, inside one the \<^verbatim>\<open>catch\<close> block runs. A \<^verbatim>\<open>cache.put\<close> that
  is not awaited cannot change what the function returns; its effect on the partition is
  part of the world the function leaves behind.
\<close>

definition networkFirst_catch :: "platform \<Rightarrow> world \<Rightarrow> request \<Rightarrow> jsval settled \<times> world" where
  "networkFirst_catch env w request =
     (case caches_match env
             (console_log w ''Network request failed, falling back to cache:'')
             (url request) of
        (Rejected e, w1) \<Rightarrow> (Rejected e, w1)
      | (Fulfilled cachedResponse, w1) \<Rightarrow>
          if truthy cachedResponse then (Fulfilled cachedResponse, w1)
          else if mode request = ''navigate'' then
            (case caches_match env w1 (resolveUrl env ''/offline.html'') of
               (p, w2) \<Rightarrow>
                 (async_return
                    (js_or (Promise p)
                       (Resp (newResponse getOfflineHTML None None
                                [(''Content-Type'', ''text/html'')]))),
                  w2))
          else
            (Fulfilled
               (Resp (newResponse ''Offline - Resource not available''
                        (Some 503) (Some ''Service Unavailable'') [])),
             w1))"

definition networkFirstStrategy :: "platform \<Rightarrow> world \<Rightarrow> request \<Rightarrow> jsval settled \<times> world" where
  "networkFirstStrategy env w request =
     (case fetch env w (url request) of
        (Rejected e, w1) \<Rightarrow> networkFirst_catch env w1 request
      | (Fulfilled networkResponse, w1) \<Rightarrow>
          if ok networkResponse then
            (case caches_open env w1 RUNTIME_CACHE_NAME of
               (Rejected e, w2) \<Rightarrow> networkFirst_catch env w2 request
             | (Fulfilled cache, w2) \<Rightarrow>
                 (Fulfilled (Resp networkResponse),
                  snd (cache_put env w2 cache (url request) networkResponse)))
          else (Fulfilled (Resp networkResponse), w1))"

definition cacheFirst_catch :: "world \<Rightarrow> jsval settled \<times> world" where
  "cacheFirst_catch w =
     (Fulfilled (Resp (newResponse ''Resource not available'' (Some 404) (Some ''Not Found'') [])),
      console_error w ''Failed to fetch resource:'')"

definition cacheFirstStrategy :: "platform \<Rightarrow> world \<Rightarrow> request \<Rightarrow> jsval settled \<times> world" where
  "cacheFirstStrategy env w request =
     (case caches_match env w (url request) of
        (Rejected e, w1) \<Rightarrow> (Rejected e, w1)
      | (Fulfilled cachedResponse, w1) \<Rightarrow>
          if truthy cachedResponse then (Fulfilled cachedResponse, w1)
          else
            (case fetch env w1 (url request) of
               (Rejected e, w2) \<Rightarrow> cacheFirst_catch w2
             | (Fulfilled networkResponse, w2) \<Rightarrow>
                 if ok networkResponse then
                   (case caches_open env w2 RUNTIME_CACHE_NAME of
                      (Rejected e, w3) \<Rightarrow> cacheFirst_catch w3
                    | (Fulfilled cache, w3) \<Rightarrow>
                        (Fulfilled (Resp networkResponse),
                         snd (cache_put env w3 cache (url request) networkResponse)))
                 else (Fulfilled (Resp networkResponse), w2)))"

definition cacheOnlyStrategy :: "platform \<Rightarrow> world \<Rightarrow> request \<Rightarrow> jsval settled \<times> world" where
  "cacheOnlyStrategy env w request =
     (case caches_match env w (url request) of (p, w1) \<Rightarrow> (async_return (Promise p), w1))"

text \<open>
  The background fetch of stale-while-revalidate: \<^verbatim>\<open>fetch(request).then(...).catch(() => null)\<close>.
  The promise is fulfilled with the network's response, or with \<^verbatim>\<open>null\<close> when the
  fetch rejects; an ok response is put into the runtime partition on a chain of its own,
  whose failure nobody observes.
\<close>

definition revalidate :: "platform \<Rightarrow> world \<Rightarrow> request \<Rightarrow> jsval \<times> world" where
  "revalidate env w request =
     (case fetch env w (url request) of
        (Rejected e, w1) \<Rightarrow> (Promise (Fulfilled Null), w1)
      | (Fulfilled networkResponse, w1) \<Rightarrow>
          (Promise (Fulfilled (Resp networkResponse)),
           if ok networkResponse then
             (case caches_open env w1 RUNTIME_CACHE_NAME of
                (Rejected e, w2) \<Rightarrow> w2
              | (Fulfilled c, w2) \<Rightarrow> snd (cache_put env w2 c (url request) networkResponse))
           else w1))"

definition staleWhileRevalidateStrategy ::
  "platform \<Rightarrow> world \<Rightarrow> request \<Rightarrow> jsval settled \<times> world" where
  "staleWhileRevalidateStrategy env w request =
     (case caches_match env w (url request) of
        (Rejected e, w1) \<Rightarrow> (Rejected e, w1)
      | (Fulfilled cachedResponse, w1) \<Rightarrow>
          (case revalidate env w1 request of
             (networkResponsePromise, w2) \<Rightarrow>
               (async_return
                  (js_or (js_or cachedResponse networkResponsePromise)
                     (Resp (newResponse ''Offline - Resource not available''
                              (Some 503) (Some ''Service Unavailable'') []))),
                w2)))"

subsection \<open>The fetch listener\<close>

datatype handler = NetworkFirst | CacheFirst | CacheOnly | StaleWhileRevalidate

text \<open>
  What the listener does with the event: it returns without responding (the browser
  performs its default fetch), or it calls \<^verbatim>\<open>event.respondWith\<close> on the promise of
  one strategy; the outcome names the strategy that was called.
\<close>

datatype fetch_outcome = PassThrough | RespondWith handler "jsval settled"

definition respondWith :: "handler \<Rightarrow> jsval settled \<times> world \<Rightarrow> fetch_outcome \<times> world" where
  "respondWith h x = (RespondWith h (fst x), snd x)"

definition fetch_listener :: "platform \<Rightarrow> world \<Rightarrow> request \<Rightarrow> fetch_outcome \<times> world" where
  "fetch_listener env w request =
     (if method' request \<noteq> ''GET'' then (PassThrough, w)
      else if startsWith (url request) ''chrome-extension://'' then (PassThrough, w)
      else if isNetworkFirstRoute (url request) then
        respondWith NetworkFirst (networkFirstStrategy env w request)
      else if isCacheFirstRoute (url request) then
        respondWith CacheFirst (cacheFirstStrategy env w request)
      else if isStaticAsset (url request) then
        respondWith CacheOnly (cacheOnlyStrategy env w request)
      else respondWith StaleWhileRevalidate (staleWhileRevalidateStrategy env w request))"

subsection \<open>Install and activate\<close>

text \<open>
  Each listener hands one promise chain to \<^verbatim>\<open>event.waitUntil\<close>; the model returns how
  that promise settles. The chain ends in a \<^verbatim>\<open>.catch\<close> that logs the error and
  returns nothing, so whatever rejects before it, the chain is fulfilled.
\<close>

definition install_catch :: "world \<Rightarrow> jsval settled \<times> world" where
  "install_catch w = (Fulfilled Undefined, console_error w ''Failed to cache static assets:'')"

definition install_listener :: "platform \<Rightarrow> world \<Rightarrow> jsval settled \<times> world" where
  "install_listener env w =
     (case caches_open env (console_log w ''Service Worker installing...'') STATIC_CACHE_NAME of
        (Rejected e, w1) \<Rightarrow> install_catch w1
      | (Fulfilled cache, w1) \<Rightarrow>
          (case cache_addAll env (console_log w1 ''Caching static assets...'') cache STATIC_ASSETS of
             (Rejected e, w2) \<Rightarrow> install_catch w2
           | (Fulfilled x, w2) \<Rightarrow>
               (case skipWaiting env w2 of
                  (Rejected e, w3) \<Rightarrow> install_catch w3
                | (Fulfilled y, w3) \<Rightarrow> (Fulfilled Undefined, w3))))"

text \<open>The names the activate step deletes: \<^verbatim>\<open>cacheNames.filter(...)\<close>.\<close>

definition old_caches :: "string list \<Rightarrow> string list" where
  "old_caches names =
     filter (\<lambda>cacheName. startsWith cacheName ''invomodo-'' \<and>
                          cacheName \<notin> set [STATIC_CACHE_NAME, RUNTIME_CACHE_NAME])
       names"

text \<open>\<^verbatim>\<open>.map((cacheName) => { console.log(...); return caches.delete(cacheName); })\<close>\<close>

fun delete_logged :: "platform \<Rightarrow> world \<Rightarrow> string list \<Rightarrow> bool settled list \<times> world" where
  "delete_logged env w [] = ([], w)"
| "delete_logged env w (cacheName # rest) =
     (case caches_delete env (console_log w ''Deleting old cache:'') cacheName of
        (r, w1) \<Rightarrow> (case delete_logged env w1 rest of (rs, w2) \<Rightarrow> (r # rs, w2)))"

definition activate_catch :: "world \<Rightarrow> jsval settled \<times> world" where
  "activate_catch w = (Fulfilled Undefined, console_error w ''Failed to activate service worker:'')"

definition activate_listener :: "platform \<Rightarrow> world \<Rightarrow> jsval settled \<times> world" where
  "activate_listener env w =
     (case caches_keys env (console_log w ''Service Worker activating...'') of
        (Rejected e, w1) \<Rightarrow> activate_catch w1
      | (Fulfilled names, w1) \<Rightarrow>
          (case delete_logged env w1 (old_caches names) of
             (deletionPromises, w2) \<Rightarrow>
               (case promise_all deletionPromises of
                  Rejected e \<Rightarrow> activate_catch w2
                | Fulfilled bs \<Rightarrow>
                    (case clients_claim env w2 of
                       (Rejected e, w3) \<Rightarrow> activate_catch w3
                     | (Fulfilled y, w3) \<Rightarrow> (Fulfilled Undefined, w3)))))"

subsection \<open>The administration channel\<close>

text \<open>
  \<^verbatim>\<open>cacheUrls\<close>: one asynchronous callback per URL, each with a \<^verbatim>\<open>try/catch\<close> of its
  own. \<^verbatim>\<open>urls.map\<close> runs every callback up to its first \<^verbatim>\<open>await\<close>, so all the
  fetches are issued first, in the order of the list; each callback then goes on when its
  fetch has settled, here in the order of the list. A callback never rejects, so
  \<^verbatim>\<open>Promise.all\<close> is fulfilled.
\<close>

fun cacheUrls_settle ::
  "platform \<Rightarrow> world \<Rightarrow> string \<Rightarrow> (string \<times> response settled) list \<Rightarrow> world" where
  "cacheUrls_settle env w cache [] = w"
| "cacheUrls_settle env w cache ((u, Rejected e) # rest) =
     cacheUrls_settle env (console_warn w ''Failed to cache:'') cache rest"
| "cacheUrls_settle env w cache ((u, Fulfilled r) # rest) =
     cacheUrls_settle env
       (if ok r then
          (case cache_put env w cache u r of
             (Rejected e, w1) \<Rightarrow> console_warn w1 ''Failed to cache:''
           | (Fulfilled x, w1) \<Rightarrow> console_log w1 ''Cached:'')
        else w)
       cache rest"

definition cacheUrls :: "platform \<Rightarrow> world \<Rightarrow> string list \<Rightarrow> world" where
  "cacheUrls env w urls =
     (case caches_open env w RUNTIME_CACHE_NAME of
        (Rejected e, w1) \<Rightarrow> console_error w1 ''Failed to cache URLs:''
      | (Fulfilled cache, w1) \<Rightarrow>
          (case fetch_each env w1 (map (resolveUrl env) urls) of
             (responses, w2) \<Rightarrow>
               console_log
                 (cacheUrls_settle env w2 cache (zip (map (resolveUrl env) urls) responses))
                 ''Finished caching requested URLs''))"



text \<open>
  \<^verbatim>\<open>obj[key] = value\<close> on an object literal. The own properties are kept as an
  association list. The key \<^verbatim>\<open>__proto__\<close> is the accessor inherited from
  \<^verbatim>\<open>Object.prototype\<close>: assigning an object to it replaces the prototype and creates no
  own property, so nothing of it is seen by \<^verbatim>\<open>postMessage\<close>.
\<close>

definition obj_set :: "(string \<times> 'v) list \<Rightarrow> string \<Rightarrow> 'v \<Rightarrow> (string \<times> 'v) list" where
  "obj_set props k v = (if k = ''__proto__'' then props else AList.update k v props)"

text \<open>The inner loop of \<^verbatim>\<open>getCacheStatus\<close>, over the requests of one partition: an
  error while an entry is read is caught, logged, and the loop goes on.\<close>

fun size_loop :: "platform \<Rightarrow> world \<Rightarrow> string \<Rightarrow> string list \<Rightarrow> nat \<Rightarrow> nat \<times> world" where
  "size_loop env w cache [] cacheSize = (cacheSize, w)"
| "size_loop env w cache (request # rest) cacheSize =
     (case cache_match env w cache request of
        (Rejected e, w1) \<Rightarrow>
          size_loop env (console_warn w1 ''Failed to get size for:'') cache rest cacheSize
      | (Fulfilled (Resp r), w1) \<Rightarrow>
          (case blob env w1 cache request r of
             (Rejected e, w2) \<Rightarrow>
               size_loop env (console_warn w2 ''Failed to get size for:'') cache rest cacheSize
           | (Fulfilled n, w2) \<Rightarrow> size_loop env w2 cache rest (cacheSize + n))
      | (Fulfilled other, w1) \<Rightarrow> size_loop env w1 cache rest cacheSize)"

text \<open>The outer loop, over the partition names; an error here leaves the \<^verbatim>\<open>try\<close> block.\<close>

fun status_loop ::
  "platform \<Rightarrow> world \<Rightarrow> string list \<Rightarrow> cache_status \<Rightarrow> cache_status settled \<times> world" where
  "status_loop env w [] st = (Fulfilled st, w)"
| "status_loop env w (cacheName # rest) st =
     (case caches_open env w cacheName of
        (Rejected e, w1) \<Rightarrow> (Rejected e, w1)
      | (Fulfilled cache, w1) \<Rightarrow>
          (case cache_keys env w1 cache of
             (Rejected e, w2) \<Rightarrow> (Rejected e, w2)
           | (Fulfilled requests, w2) \<Rightarrow>
               (case size_loop env w2 cache requests 0 of
                  (cacheSize, w3) \<Rightarrow>
                    status_loop env w3 rest
                      (st\<lparr>cacheDetails :=
                            obj_set (cacheDetails st) cacheName
                              \<lparr>itemCount = length requests, size_bytes = cacheSize\<rparr>,
                          totalSize := totalSize st + cacheSize\<rparr>))))"

definition getCacheStatus_catch :: "string \<Rightarrow> world \<Rightarrow> reply \<times> world" where
  "getCacheStatus_catch e w = (ErrorReply e, console_error w ''Failed to get cache status:'')"

definition getCacheStatus :: "platform \<Rightarrow> world \<Rightarrow> reply \<times> world" where
  "getCacheStatus env w =
     (case caches_keys env w of
        (Rejected e, w1) \<Rightarrow> getCacheStatus_catch e w1
      | (Fulfilled names, w1) \<Rightarrow>
          (case status_loop env w1 names
                  \<lparr>cacheNames = names, totalSize = 0, cacheDetails = []\<rparr> of
             (Rejected e, w2) \<Rightarrow> getCacheStatus_catch e w2
           | (Fulfilled st, w2) \<Rightarrow> (Status st, w2)))"



subsection \<open>The routing rule in the words of the specification\<close>

text \<open>
  First match wins: a URL that contains a network-first pattern, else one that contains
  a cache-first pattern, else one that ends with a declared static asset path, else the
  default. Written with the library's \<open>sublist\<close> and \<open>suffix\<close>, to be compared with
  the listener's own chain of tests.
\<close>

definition spec_route :: "string \<Rightarrow> handler" where
  "spec_route u =
     (if (\<exists>r\<in>set NETWORK_FIRST_ROUTES. sublist r u) then NetworkFirst
      else if (\<exists>r\<in>set CACHE_FIRST_ROUTES. sublist r u) then CacheFirst
      else if (\<exists>a\<in>set STATIC_ASSETS. suffix a u) then CacheOnly
      else StaleWhileRevalidate)"

definition strategy :: "handler \<Rightarrow> platform \<Rightarrow> world \<Rightarrow> request \<Rightarrow> jsval settled \<times> world" where
  "strategy h =
     (case h of
        NetworkFirst \<Rightarrow> networkFirstStrategy
      | CacheFirst \<Rightarrow> cacheFirstStrategy
      | CacheOnly \<Rightarrow> cacheOnlyStrategy
      | StaleWhileRevalidate \<Rightarrow> staleWhileRevalidateStrategy)"

subsection \<open>Concrete platforms, worlds and requests\<close>

definition served :: "string \<Rightarrow> response" where
  "served b = \<lparr>status = 200, statusText = ''OK'', headers = [], body = b\<rparr>"

text \<open>
  The URL parser of a worker served from \<^verbatim>\<open>https://app.example/sw.js\<close>, on the
  references used below: an absolute URL is itself, a path is put after the origin, and
  any other reference is relative to the worker's directory.
\<close>

definition app_url :: "string \<Rightarrow> string" where
  "app_url u =
     (if includesStr u ''://'' then u
      else if startsWith u ''/'' then ''https://app.example'' @ u
      else ''https://app.example/'' @ u)"

text \<open>A platform whose network is unreachable, and one that serves every URL; the
  storage of both answers every call.\<close>

definition offline :: platform where
  "offline = \<lparr>resolveUrl = app_url, net = (\<lambda>u. None), faults = (\<lambda>c. None)\<rparr>"

definition online :: platform where
  "online = \<lparr>resolveUrl = app_url, net = (\<lambda>u. Some (served u)),
              faults = (\<lambda>c. None)\<rparr>"

definition empty_world :: world where
  "empty_world = \<lparr>caches = [], calls = [], console = [], posted = []\<rparr>"

definition get_request :: "string \<Rightarrow> string \<Rightarrow> request" where
  "get_request u m = \<lparr>url = u, method' = ''GET'', mode = m\<rparr>"

text \<open>An installed application: the shell in the static partition, a style sheet in the
  runtime partition.\<close>

definition shell_world :: world where
  "shell_world =
     \<lparr>caches = [(''invomodo-static-v1.0.0'',
                  [(''https://app.example/index.html'', served ''<html>shell</html>'')]),
                (''invomodo-runtime-v1.0.0'',
                  [(''https://app.example/static/app.css'', served ''body{}'')])],
      calls = [], console = [], posted = []\<rparr>"

text \<open>The partitions a worker of version 1.0.0 finds after an upgrade from 0.9.0, with a
  partition of another application beside them.\<close>

definition upgrade_world :: world where
  "upgrade_world =
     \<lparr>caches = [(''invomodo-static-v1.0.0'', []), (''invomodo-runtime-v1.0.0'', []),
                (''invomodo-static-v0.9.0'', []), (''fonts'', [])],
      calls = [], console = [], posted = []\<rparr>"

text \<open>The platform calls made between two worlds.\<close>

definition new_calls :: "world \<Rightarrow> world \<Rightarrow> platform_op list" where
  "new_calls w w' = drop (length (calls w)) (calls w')"

text \<open>
  The install batch succeeds: the static partition opens, \<^verbatim>\<open>addAll\<close> itself does not
  fail, and every declared static asset is fetched with an ok response.
\<close>

definition batch_ok :: "platform \<Rightarrow> bool" where
  "batch_ok env =
     (faults env (CachesOpen STATIC_CACHE_NAME) = None \<and>
      faults env (CacheAddAll STATIC_CACHE_NAME STATIC_ASSETS) = None \<and>
      list_all (\<lambda>a. case net env (resolveUrl env a) of None \<Rightarrow> False | Some r \<Rightarrow> ok r)
        STATIC_ASSETS)"

text \<open>
  A platform whose network serves two scripts and nothing else, and whose storage refuses
  to store the second.
\<close>

definition flaky :: platform where
  "flaky =
     \<lparr>resolveUrl = app_url,
      net = (\<lambda>u. if u = ''https://app.example/a.js'' then Some (served ''let a'')
                 else if u = ''https://app.example/b.js'' then Some (served ''let b'')
                 else None),
      faults = (\<lambda>c. if c = CachePut ''invomodo-runtime-v1.0.0'' ''https://app.example/b.js''
                      then Some ''Quota exceeded'' else None)\<rparr>"

subsection \<open>The cache status in the words of the specification\<close>











text \<open>A partition that a page of the origin has named \<^verbatim>\<open>__proto__\<close>.\<close>

definition proto_world :: world where
  "proto_world =
     \<lparr>caches = [(''__proto__'',
                  [(''https://app.example/index.html'', served (replicate 100 (CHR ''a'')))]),
                (''invomodo-runtime-v1.0.0'',
                  [(''https://app.example/static/app.css'', served (replicate 250 (CHR ''b'')))])],
      calls = [], console = [], posted = []\<rparr>"

section \<open>Properties\<close>

subsection \<open>Strings\<close>

lemma startsWith_prefix: "startsWith s p \<longleftrightarrow> prefix p s"
  by (induction s p rule: startsWith.induct) auto

lemma endsWith_suffix: "endsWith s p \<longleftrightarrow> suffix p s"
proof
  assume "endsWith s p"
  then have "drop (length s - length p) s = p"
    by (simp add: endsWith_def)
  then have "s = take (length s - length p) s @ p"
    by (metis append_take_drop_id)
  then show "suffix p s"
    by (rule suffixI)
next
  assume "suffix p s"
  then obtain zs where "s = zs @ p"
    by (auto simp: suffix_def)
  then show "endsWith s p"
    by (simp add: endsWith_def)
qed

lemma includesStr_sublist: "includesStr s p \<longleftrightarrow> sublist p s"
  by (induction s) (simp_all add: startsWith_prefix sublist_Cons_right)

lemma isNetworkFirstRoute_iff:
  "isNetworkFirstRoute u \<longleftrightarrow> (\<exists>r\<in>set NETWORK_FIRST_ROUTES. sublist r u)"
  by (simp add: isNetworkFirstRoute_def list_ex_iff includesStr_sublist)

lemma isCacheFirstRoute_iff:
  "isCacheFirstRoute u \<longleftrightarrow> (\<exists>r\<in>set CACHE_FIRST_ROUTES. sublist r u)"
  by (simp add: isCacheFirstRoute_def list_ex_iff includesStr_sublist)

lemma isStaticAsset_iff:
  "isStaticAsset u \<longleftrightarrow> (\<exists>a\<in>set STATIC_ASSETS. suffix a u)"
  by (simp add: isStaticAsset_def list_ex_iff endsWith_suffix)

lemma spec_route_code:
  "spec_route u =
     (if isNetworkFirstRoute u then NetworkFirst
      else if isCacheFirstRoute u then CacheFirst
      else if isStaticAsset u then CacheOnly
      else StaleWhileRevalidate)"
  by (simp add: spec_route_def isNetworkFirstRoute_iff isCacheFirstRoute_iff isStaticAsset_iff)

lemmas route_eval =
  spec_route_code isNetworkFirstRoute_def isCacheFirstRoute_def isStaticAsset_def
  NETWORK_FIRST_ROUTES_def CACHE_FIRST_ROUTES_def STATIC_ASSETS_def endsWith_def
  get_request_def

subsection \<open>Routing\<close>

text \<open>
  C5. A request that is not a GET, or whose URL starts with the extension scheme
  \<^verbatim>\<open>chrome-extension://\<close>, is passed through: the listener responds with nothing and the
  world is as before. Every other request is answered by exactly one strategy, the one
  the first-match-wins rule of the specification names: network-first when the URL
  contains a network-first pattern, else cache-first when it contains a cache-first
  pattern, else cache-only when it ends with a declared static asset path, else
  stale-while-revalidate.
\<close>

theorem fetch_listener_dispatch:
  "fetch_listener env w req =
     (if method' req \<noteq> ''GET'' \<or> prefix ''chrome-extension://'' (url req) then (PassThrough, w)
      else respondWith (spec_route (url req)) (strategy (spec_route (url req)) env w req))
   \<and> (\<forall>h p w'. fetch_listener env w req = (RespondWith h p, w') \<longrightarrow>
         h = spec_route (url req) \<and> method' req = ''GET'' \<and>
         \<not> prefix ''chrome-extension://'' (url req))"
proof -
  have eq: "fetch_listener env w req =
     (if method' req \<noteq> ''GET'' \<or> prefix ''chrome-extension://'' (url req) then (PassThrough, w)
      else respondWith (spec_route (url req)) (strategy (spec_route (url req)) env w req))"
    by (simp add: fetch_listener_def spec_route_code strategy_def startsWith_prefix)
  have "h = spec_route (url req) \<and> method' req = ''GET'' \<and>
        \<not> prefix ''chrome-extension://'' (url req)"
    if "fetch_listener env w req = (RespondWith h p, w')" for h p w'
    using that unfolding eq by (auto simp: respondWith_def split: if_splits)
  with eq show ?thesis
    by blast
qed

theorem fetch_listener_dispatch_witness:
  "fetch_listener offline empty_world \<lparr>url = ''https://app.example/api/user/session'', method' = ''POST'', mode = ''cors''\<rparr>
     = (PassThrough, empty_world)
   \<and> fetch_listener offline empty_world (get_request ''chrome-extension://abcdef/popup.js'' ''no-cors'')
     = (PassThrough, empty_world)
   \<and> fetch_listener offline empty_world (get_request ''https://app.example/api/user/session'' ''cors'')
     = respondWith NetworkFirst
         (networkFirstStrategy offline empty_world (get_request ''https://app.example/api/user/session'' ''cors''))
   \<and> fetch_listener offline empty_world (get_request ''https://app.example/static/api/logo.png'' ''no-cors'')
     = respondWith NetworkFirst
         (networkFirstStrategy offline empty_world (get_request ''https://app.example/static/api/logo.png'' ''no-cors''))
   \<and> fetch_listener offline empty_world (get_request ''https://app.example/icons/index.html'' ''no-cors'')
     = respondWith CacheFirst
         (cacheFirstStrategy offline empty_world (get_request ''https://app.example/icons/index.html'' ''no-cors''))
   \<and> fetch_listener offline empty_world (get_request ''https://app.example/index.html'' ''navigate'')
     = respondWith CacheOnly
         (cacheOnlyStrategy offline empty_world (get_request ''https://app.example/index.html'' ''navigate''))
   \<and> fetch_listener offline empty_world (get_request ''https://app.example/dashboard'' ''navigate'')
     = respondWith StaleWhileRevalidate
         (staleWhileRevalidateStrategy offline empty_world (get_request ''https://app.example/dashboard'' ''navigate''))"
  using
    fetch_listener_dispatch [of offline empty_world "\<lparr>url = ''https://app.example/api/user/session'', method' = ''POST'', mode = ''cors''\<rparr>"]
    fetch_listener_dispatch [of offline empty_world "get_request ''chrome-extension://abcdef/popup.js'' ''no-cors''"]
    fetch_listener_dispatch [of offline empty_world "get_request ''https://app.example/api/user/session'' ''cors''"]
    fetch_listener_dispatch [of offline empty_world "get_request ''https://app.example/static/api/logo.png'' ''no-cors''"]
    fetch_listener_dispatch [of offline empty_world "get_request ''https://app.example/icons/index.html'' ''no-cors''"]
    fetch_listener_dispatch [of offline empty_world "get_request ''https://app.example/index.html'' ''navigate''"]
    fetch_listener_dispatch [of offline empty_world "get_request ''https://app.example/dashboard'' ''navigate''"]
  by (simp add: route_eval strategy_def)

subsection \<open>Cache lookup\<close>

lemma match_all_miss:
  "match_all cs u = Undefined \<longleftrightarrow> (\<forall>p\<in>set cs. u \<notin> fst ` set (snd p))"
  by (induction cs u rule: match_all.induct)
     (auto simp: map_of_eq_None_iff [symmetric] split: option.splits)

lemma match_all_hit:
  "match_all cs u = Resp r \<Longrightarrow> \<exists>p\<in>set cs. (u, r) \<in> set (snd p)"
  by (induction cs u rule: match_all.induct)
     (auto split: option.splits dest: map_of_SomeD)

lemma match_all_cases:
  "match_all cs u = Undefined \<or> (\<exists>r. match_all cs u = Resp r)"
  by (induction cs u rule: match_all.induct) (auto split: option.splits)

text \<open>
  C10. A GET request whose URL does not start with \<^verbatim>\<open>chrome-extension://\<close>, ends with
  \<^verbatim>\<open>/\<close> and contains no network-first and no cache-first pattern is answered by the
  cache-only strategy. When no partition holds an entry for it (and the lookup itself
  does not fail) the answer is \<^verbatim>\<open>undefined\<close>, no response at all, and the lookup is
  the only platform call made: nothing is fetched.
\<close>

theorem trailing_slash_is_cache_only:
  assumes "method' req = ''GET''"
    and "\<not> prefix ''chrome-extension://'' (url req)"
    and "suffix ''/'' (url req)"
    and "\<forall>r\<in>set NETWORK_FIRST_ROUTES. \<not> sublist r (url req)"
    and "\<forall>r\<in>set CACHE_FIRST_ROUTES. \<not> sublist r (url req)"
  shows "(\<exists>p w'. fetch_listener env w req = (RespondWith CacheOnly p, w'))
    \<and> (faults env (CachesMatch (url req)) = None \<and>
         (\<forall>p\<in>set (caches w). url req \<notin> fst ` set (snd p)) \<longrightarrow>
       fetch_listener env w req =
         (RespondWith CacheOnly (Fulfilled Undefined), call (CachesMatch (url req)) w))"
proof -
  have static: "isStaticAsset (url req)"
    using assms(3) by (auto simp: isStaticAsset_iff STATIC_ASSETS_def)
  have route: "fetch_listener env w req = respondWith CacheOnly (cacheOnlyStrategy env w req)"
    using assms static
    by (simp add: fetch_listener_def startsWith_prefix isNetworkFirstRoute_iff isCacheFirstRoute_iff)
  have miss: "cacheOnlyStrategy env w req = (Fulfilled Undefined, call (CachesMatch (url req)) w)"
    if "faults env (CachesMatch (url req)) = None"
      and "\<forall>p\<in>set (caches w). url req \<notin> fst ` set (snd p)"
  proof -
    have "match_all (caches w) (url req) = Undefined"
      using that(2) by (simp add: match_all_miss)
    then show ?thesis
      using that(1) by (simp add: cacheOnlyStrategy_def caches_match_def)
  qed
  show ?thesis
    using route miss by (auto simp: respondWith_def)
qed

theorem trailing_slash_is_cache_only_witness:
  "fetch_listener offline empty_world (get_request ''https://app.example/'' ''navigate'') =
     (RespondWith CacheOnly (Fulfilled Undefined),
      call (CachesMatch ''https://app.example/'') empty_world)"
proof -
  let ?req = "get_request ''https://app.example/'' ''navigate''"
  have 1: "method' ?req = ''GET''"
    by (simp add: get_request_def)
  have 2: "\<not> prefix ''chrome-extension://'' (url ?req)"
    by (simp add: get_request_def)
  have 3: "suffix ''/'' (url ?req)"
    by (simp add: get_request_def endsWith_suffix [symmetric] endsWith_def)
  have 4: "\<forall>r\<in>set NETWORK_FIRST_ROUTES. \<not> sublist r (url ?req)"
    by (simp add: get_request_def NETWORK_FIRST_ROUTES_def includesStr_sublist [symmetric])
  have 5: "\<forall>r\<in>set CACHE_FIRST_ROUTES. \<not> sublist r (url ?req)"
    by (simp add: get_request_def CACHE_FIRST_ROUTES_def includesStr_sublist [symmetric])
  have 6: "faults offline (CachesMatch (url ?req)) = None"
    by (simp add: offline_def)
  have 7: "\<forall>p\<in>set (caches empty_world). url ?req \<notin> fst ` set (snd p)"
    by (simp add: empty_world_def)
  from trailing_slash_is_cache_only [OF 1 2 3 4 5, of offline empty_world] 6 7
  show ?thesis
    by (simp add: get_request_def)
qed

text \<open>
  As the specification states it the property fails: a GET request for an extension page ends with
  \<^verbatim>\<open>/\<close> and matches no network-first or cache-first pattern, and is passed through.
\<close>

theorem trailing_slash_extension_counterexample:
  "method' (get_request ''chrome-extension://abcdef/'' ''navigate'') = ''GET''
   \<and> endsWith (url (get_request ''chrome-extension://abcdef/'' ''navigate'')) ''/''
   \<and> \<not> isNetworkFirstRoute (url (get_request ''chrome-extension://abcdef/'' ''navigate''))
   \<and> \<not> isCacheFirstRoute (url (get_request ''chrome-extension://abcdef/'' ''navigate''))
   \<and> fetch_listener offline empty_world (get_request ''chrome-extension://abcdef/'' ''navigate'')
       = (PassThrough, empty_world)"
  by (simp add: fetch_listener_def route_eval)

subsection \<open>Network-first\<close>

text \<open>
  C1. A navigation to \<^verbatim>\<open>/api/user/session\<close> with the network unreachable and nothing
  cached: the listener answers through the network-first strategy, whose promise is
  fulfilled with \<^verbatim>\<open>undefined\<close>. The operand \<^verbatim>\<open>caches.match('/offline.html')\<close> of
  \<^verbatim>\<open>||\<close> is a promise, hence truthy, so the synthesized page on the right is never
  taken and the function returns what the lookup of \<^verbatim>\<open>/offline.html\<close> gives.
\<close>

theorem networkFirst_navigate_offline_undefined:
  "fetch_listener offline empty_world
      (get_request ''https://app.example/api/user/session'' ''navigate'') =
     (RespondWith NetworkFirst (Fulfilled Undefined),
      \<lparr>caches = [],
       calls = [Fetch ''https://app.example/api/user/session'',
                CachesMatch ''https://app.example/api/user/session'',
                CachesMatch ''https://app.example/offline.html''],
       console = [(Log, ''Network request failed, falling back to cache:'')],
       posted = []\<rparr>)"
  by (simp add: fetch_listener_def route_eval respondWith_def networkFirstStrategy_def
      networkFirst_catch_def fetch_def caches_match_def call_def console_log_def
      app_url_def js_or_def offline_def empty_world_def)

text \<open>
  In general: when the fetch rejects and the request is not cached, a navigation is
  answered with the lookup of \<^verbatim>\<open>/offline.html\<close>, whatever it gives.
\<close>

lemma networkFirst_navigate_fallback:
  assumes "net env (url req) = None"
    and "faults env (CachesMatch (url req)) = None"
    and "match_all (caches w) (url req) = Undefined"
    and "mode req = ''navigate''"
  shows "fst (networkFirstStrategy env w req) =
           fst (caches_match env w (resolveUrl env ''/offline.html''))"
  using assms
  by (simp add: networkFirstStrategy_def networkFirst_catch_def fetch_def caches_match_def
      call_def console_log_def js_or_def split: option.splits)

subsection \<open>Stale-while-revalidate\<close>

text \<open>
  C2. A request for \<^verbatim>\<open>/dashboard\<close> with the network unreachable and nothing cached:
  the promise of the stale-while-revalidate strategy is fulfilled with \<^verbatim>\<open>null\<close>. The
  middle operand of \<^verbatim>\<open>cachedResponse || networkResponsePromise || new Response(...)\<close>
  is a promise, hence truthy, so the response with status 503 is never taken.
\<close>

theorem staleWhileRevalidate_offline_null:
  "fetch_listener offline empty_world (get_request ''https://app.example/dashboard'' ''cors'') =
     (RespondWith StaleWhileRevalidate (Fulfilled Null),
      \<lparr>caches = [],
       calls = [CachesMatch ''https://app.example/dashboard'',
                Fetch ''https://app.example/dashboard''],
       console = [], posted = []\<rparr>)"
  by (simp add: fetch_listener_def route_eval respondWith_def staleWhileRevalidateStrategy_def
      revalidate_def fetch_def caches_match_def call_def js_or_def offline_def empty_world_def)

text \<open>The parts of the strategy that do not depend on the last operand.\<close>

lemma staleWhileRevalidate_cached:
  assumes "faults env (CachesMatch (url req)) = None"
    and "match_all (caches w) (url req) = Resp r"
  shows "fst (staleWhileRevalidateStrategy env w req) = Fulfilled (Resp r)"
  using assms
  by (simp add: staleWhileRevalidateStrategy_def revalidate_def caches_match_def fetch_def
      js_or_def split: option.splits prod.splits settled.splits)

lemma staleWhileRevalidate_miss:
  assumes "faults env (CachesMatch (url req)) = None"
    and "match_all (caches w) (url req) = Undefined"
  shows "fst (staleWhileRevalidateStrategy env w req) =
           (case net env (url req) of None \<Rightarrow> Fulfilled Null | Some r \<Rightarrow> Fulfilled (Resp r))"
  using assms
  by (simp add: staleWhileRevalidateStrategy_def revalidate_def caches_match_def fetch_def
      js_or_def split: option.splits prod.splits settled.splits)

subsection \<open>What the platform calls leave unchanged\<close>

lemma call_simps:
  "caches (call c w) = caches w" "calls (call c w) = calls w @ [c]"
  "console (call c w) = console w" "posted (call c w) = posted w"
  by (simp_all add: call_def)

lemma console_simps:
  "caches (console_log w m) = caches w" "calls (console_log w m) = calls w"
  "caches (console_warn w m) = caches w" "calls (console_warn w m) = calls w"
  "caches (console_error w m) = caches w" "calls (console_error w m) = calls w"
  "console (console_log w m) = console w @ [(Log, m)]"
  "console (console_warn w m) = console w @ [(Warn, m)]"
  "console (console_error w m) = console w @ [(Error, m)]"
  by (simp_all add: console_log_def console_warn_def console_error_def)

lemma entries_frame:
  "entries (call c w) n = entries w n" "entries (console_log w m) n = entries w n"
  "entries (console_warn w m) n = entries w n" "entries (console_error w m) n = entries w n"
  by (simp_all add: entries_def call_simps console_simps)

lemma map_of_put_entry:
  "map_of (put_entry u r c) x = (if x = u then Some r else map_of c x)"
proof -
  have miss: "map_of (filter (\<lambda>e. fst e \<noteq> u) c) u = None"
    by (auto simp: map_of_eq_None_iff)
  have keep: "map_of (filter (\<lambda>e. fst e \<noteq> u) c) x = map_of c x" if "x \<noteq> u"
    using that by (induction c) auto
  show ?thesis
    using miss keep by (auto simp: put_entry_def map_add_def split: option.splits)
qed

lemma map_of_store_partition:
  "map_of (map (\<lambda>p. if fst p = n then (fst p, f (snd p)) else p) cs) m =
     (if m = n then map_option f (map_of cs m) else map_of cs m)"
  by (induction cs) auto

lemma entries_store:
  assumes "n \<in> fst ` set (caches w)"
  shows "map_of (entries (store n u r w) n) x = (if x = u then Some r else map_of (entries w n) x)"
proof -
  from assms obtain c where c: "map_of (caches w) n = Some c"
    by (metis map_of_eq_None_iff not_Some_eq)
  then have "entries (store n u r w) n = put_entry u r c"
    by (simp add: entries_def store_def map_of_store_partition)
  with c show ?thesis
    by (simp add: entries_def map_of_put_entry)
qed

lemma store_names: "map fst (caches (store n u r w)) = map fst (caches w)"
  by (simp add: store_def comp_def if_distrib cong: if_cong)

lemma caches_open_fulfilled:
  assumes "faults env (CachesOpen n) = None"
  shows "\<exists>w'. caches_open env w n = (Fulfilled n, w') \<and> n \<in> fst ` set (caches w') \<and>
           (\<forall>m. entries w' m = entries w m) \<and> calls w' = calls w @ [CachesOpen n] \<and>
           console w' = console w \<and>
           (n \<in> fst ` set (caches w) \<longrightarrow> caches w' = caches w)"
proof (cases "n \<in> fst ` set (caches w)")
  case True
  with assms show ?thesis
    by (simp add: caches_open_def call_simps entries_frame)
next
  case False
  then have none: "map_of (caches w) n = None"
    by (simp add: map_of_eq_None_iff)
  have "entries (w\<lparr>caches := caches w @ [(n, [])]\<rparr>) m = entries w m" for m
    using none by (cases "m = n") (auto simp: entries_def map_add_def split: option.splits)
  with assms False show ?thesis
    by (simp add: caches_open_def call_simps entries_frame)
qed

subsection \<open>Cache-only\<close>

text \<open>
  C8. The cache-only strategy is the lookup across the partitions and nothing else:
  when the lookup does not fail, its promise is fulfilled with \<^verbatim>\<open>undefined\<close> exactly
  when no partition holds an entry for the URL, and otherwise with the response of an
  entry that a partition holds for the URL; the lookup is the only platform call
  (nothing is fetched) and the partitions are as before.
\<close>

theorem cacheOnly_is_lookup:
  assumes "faults env (CachesMatch (url req)) = None"
  shows "\<exists>v. cacheOnlyStrategy env w req = (Fulfilled v, call (CachesMatch (url req)) w)
     \<and> (v = Undefined \<longleftrightarrow> (\<forall>p\<in>set (caches w). url req \<notin> fst ` set (snd p)))
     \<and> (v = Undefined \<or> (\<exists>r. v = Resp r \<and> (\<exists>p\<in>set (caches w). (url req, r) \<in> set (snd p))))"
proof -
  let ?v = "match_all (caches w) (url req)"
  have "cacheOnlyStrategy env w req = (Fulfilled ?v, call (CachesMatch (url req)) w)"
    using assms by (simp add: cacheOnlyStrategy_def caches_match_def)
  moreover have "?v = Undefined \<longleftrightarrow> (\<forall>p\<in>set (caches w). url req \<notin> fst ` set (snd p))"
    by (rule match_all_miss)
  moreover have "?v = Undefined \<or> (\<exists>r. ?v = Resp r \<and> (\<exists>p\<in>set (caches w). (url req, r) \<in> set (snd p)))"
    using match_all_cases [of "caches w" "url req"] match_all_hit [of "caches w" "url req"]
    by blast
  ultimately show ?thesis
    by blast
qed

theorem cacheOnly_is_lookup_witness:
  "cacheOnlyStrategy offline empty_world (get_request ''https://app.example/index.html'' ''navigate'')
     = (Fulfilled Undefined, call (CachesMatch ''https://app.example/index.html'') empty_world)
   \<and> cacheOnlyStrategy offline shell_world (get_request ''https://app.example/index.html'' ''navigate'')
     = (Fulfilled (Resp (served ''<html>shell</html>'')),
        call (CachesMatch ''https://app.example/index.html'') shell_world)"
proof -
  let ?req = "get_request ''https://app.example/index.html'' ''navigate''"
  have f: "faults offline (CachesMatch (url ?req)) = None"
    by (simp add: offline_def)
  have "cacheOnlyStrategy offline empty_world ?req
          = (Fulfilled Undefined, call (CachesMatch ''https://app.example/index.html'') empty_world)"
    using cacheOnly_is_lookup [OF f, of empty_world]
    by (auto simp: empty_world_def get_request_def)
  moreover have "cacheOnlyStrategy offline shell_world ?req
          = (Fulfilled (Resp (served ''<html>shell</html>'')),
             call (CachesMatch ''https://app.example/index.html'') shell_world)"
    using cacheOnly_is_lookup [OF f, of shell_world]
    by (auto simp: shell_world_def get_request_def)
  ultimately show ?thesis
    by simp
qed

subsection \<open>Cache-first\<close>

text \<open>
  C7. The cache-first strategy, when the cache lookup does not fail. If a partition
  holds an entry for the request, the promise is fulfilled with the response of such an
  entry and the lookup is the only platform call: nothing is fetched. If no partition
  holds one, the request is fetched: an ok response is returned and (when the runtime
  partition can be opened and written) is afterwards the runtime partition's entry for
  the URL; and when the fetch rejects, a response with status 404 is returned.
\<close>

theorem cacheFirst_behaviour:
  assumes "faults env (CachesMatch (url req)) = None"
  shows "((\<exists>p\<in>set (caches w). url req \<in> fst ` set (snd p)) \<longrightarrow>
            (\<exists>r. cacheFirstStrategy env w req = (Fulfilled (Resp r), call (CachesMatch (url req)) w)
               \<and> (\<exists>p\<in>set (caches w). (url req, r) \<in> set (snd p))))
     \<and> ((\<forall>p\<in>set (caches w). url req \<notin> fst ` set (snd p)) \<longrightarrow>
          (\<forall>r. net env (url req) = Some r \<and> ok r \<and>
               faults env (CachesOpen RUNTIME_CACHE_NAME) = None \<and>
               faults env (CachePut RUNTIME_CACHE_NAME (url req)) = None \<longrightarrow>
             fst (cacheFirstStrategy env w req) = Fulfilled (Resp r) \<and>
             map_of (entries (snd (cacheFirstStrategy env w req)) RUNTIME_CACHE_NAME) (url req)
               = Some r \<and>
             calls (snd (cacheFirstStrategy env w req)) =
               calls w @ [CachesMatch (url req), Fetch (url req),
                          CachesOpen RUNTIME_CACHE_NAME,
                          CachePut RUNTIME_CACHE_NAME (url req)])
          \<and> (net env (url req) = None \<longrightarrow>
               (\<exists>r. fst (cacheFirstStrategy env w req) = Fulfilled (Resp r) \<and> status r = 404) \<and>
               caches (snd (cacheFirstStrategy env w req)) = caches w \<and>
               calls (snd (cacheFirstStrategy env w req)) =
                 calls w @ [CachesMatch (url req), Fetch (url req)]))"
proof (intro conjI impI allI)
  assume "\<exists>p\<in>set (caches w). url req \<in> fst ` set (snd p)"
  then have "match_all (caches w) (url req) \<noteq> Undefined"
    by (simp add: match_all_miss)
  then obtain r where r: "match_all (caches w) (url req) = Resp r"
    using match_all_cases [of "caches w" "url req"] by blast
  then have "cacheFirstStrategy env w req = (Fulfilled (Resp r), call (CachesMatch (url req)) w)"
    using assms by (simp add: cacheFirstStrategy_def caches_match_def)
  with match_all_hit [OF r]
  show "\<exists>r. cacheFirstStrategy env w req = (Fulfilled (Resp r), call (CachesMatch (url req)) w)
          \<and> (\<exists>p\<in>set (caches w). (url req, r) \<in> set (snd p))"
    by blast
next
  fix r
  assume miss: "\<forall>p\<in>set (caches w). url req \<notin> fst ` set (snd p)"
    and net: "net env (url req) = Some r \<and> ok r \<and>
      faults env (CachesOpen RUNTIME_CACHE_NAME) = None \<and>
      faults env (CachePut RUNTIME_CACHE_NAME (url req)) = None"
  from miss have m: "match_all (caches w) (url req) = Undefined"
    by (simp add: match_all_miss)
  let ?w2 = "call (Fetch (url req)) (call (CachesMatch (url req)) w)"
  from net caches_open_fulfilled [of env RUNTIME_CACHE_NAME ?w2]
  obtain w3 where w3: "caches_open env ?w2 RUNTIME_CACHE_NAME = (Fulfilled RUNTIME_CACHE_NAME, w3)"
    and mem: "RUNTIME_CACHE_NAME \<in> fst ` set (caches w3)"
    and tr: "calls w3 = calls ?w2 @ [CachesOpen RUNTIME_CACHE_NAME]"
    by blast
  have run: "cacheFirstStrategy env w req =
      (Fulfilled (Resp r),
       call (CachePut RUNTIME_CACHE_NAME (url req)) (store RUNTIME_CACHE_NAME (url req) r w3))"
    using assms m net w3
    by (simp add: cacheFirstStrategy_def caches_match_def fetch_def cache_put_def)
  show "fst (cacheFirstStrategy env w req) = Fulfilled (Resp r)"
    by (simp add: run)
  show "map_of (entries (snd (cacheFirstStrategy env w req)) RUNTIME_CACHE_NAME) (url req) = Some r"
    by (simp add: run entries_frame entries_store [OF mem])
  show "calls (snd (cacheFirstStrategy env w req)) =
          calls w @ [CachesMatch (url req), Fetch (url req), CachesOpen RUNTIME_CACHE_NAME,
                     CachePut RUNTIME_CACHE_NAME (url req)]"
    by (simp add: run call_simps tr store_def)
next
  assume miss: "\<forall>p\<in>set (caches w). url req \<notin> fst ` set (snd p)"
    and net: "net env (url req) = None"
  from miss have m: "match_all (caches w) (url req) = Undefined"
    by (simp add: match_all_miss)
  have run: "cacheFirstStrategy env w req =
      cacheFirst_catch (call (Fetch (url req)) (call (CachesMatch (url req)) w))"
    using assms m net
    by (simp add: cacheFirstStrategy_def caches_match_def fetch_def)
  show "\<exists>r. fst (cacheFirstStrategy env w req) = Fulfilled (Resp r) \<and> status r = 404"
    by (simp add: run cacheFirst_catch_def newResponse_def)
  show "caches (snd (cacheFirstStrategy env w req)) = caches w"
    by (simp add: run cacheFirst_catch_def console_simps call_simps)
  show "calls (snd (cacheFirstStrategy env w req)) = calls w @ [CachesMatch (url req), Fetch (url req)]"
    by (simp add: run cacheFirst_catch_def console_simps call_simps)
qed

theorem cacheFirst_behaviour_witness:
  "cacheFirstStrategy offline shell_world (get_request ''https://app.example/static/app.css'' ''no-cors'')
     = (Fulfilled (Resp (served ''body{}'')),
        call (CachesMatch ''https://app.example/static/app.css'') shell_world)
   \<and> fst (cacheFirstStrategy online empty_world
             (get_request ''https://app.example/static/app.css'' ''no-cors''))
     = Fulfilled (Resp (served ''https://app.example/static/app.css''))
   \<and> map_of (entries (snd (cacheFirstStrategy online empty_world
                               (get_request ''https://app.example/static/app.css'' ''no-cors'')))
               RUNTIME_CACHE_NAME) ''https://app.example/static/app.css''
     = Some (served ''https://app.example/static/app.css'')
   \<and> (\<exists>r. fst (cacheFirstStrategy offline empty_world
                  (get_request ''https://app.example/static/app.css'' ''no-cors''))
           = Fulfilled (Resp r) \<and> status r = 404)"
proof -
  let ?u = "''https://app.example/static/app.css''"
  let ?req = "get_request ?u ''no-cors''"
  have u: "url ?req = ?u"
    by (simp add: get_request_def)
  have off: "faults offline (CachesMatch (url ?req)) = None"
    by (simp add: offline_def)
  have on: "faults online (CachesMatch (url ?req)) = None"
    by (simp add: online_def)
  have hit: "\<exists>p\<in>set (caches shell_world). url ?req \<in> fst ` set (snd p)"
    by (simp add: shell_world_def u)
  have miss: "\<forall>p\<in>set (caches empty_world). url ?req \<notin> fst ` set (snd p)"
    by (simp add: empty_world_def)
  have served: "net online (url ?req) = Some (served ?u) \<and> ok (served ?u) \<and>
      faults online (CachesOpen RUNTIME_CACHE_NAME) = None \<and>
      faults online (CachePut RUNTIME_CACHE_NAME (url ?req)) = None"
    by (simp add: online_def u ok_def served_def)
  have down: "net offline (url ?req) = None"
    by (simp add: offline_def)
  have a: "cacheFirstStrategy offline shell_world ?req
      = (Fulfilled (Resp (served ''body{}'')), call (CachesMatch ?u) shell_world)"
    using cacheFirst_behaviour [OF off, of shell_world] hit
    by (auto simp: shell_world_def u)
  have b: "fst (cacheFirstStrategy online empty_world ?req) = Fulfilled (Resp (served ?u))
      \<and> map_of (entries (snd (cacheFirstStrategy online empty_world ?req)) RUNTIME_CACHE_NAME) ?u
          = Some (served ?u)"
    using cacheFirst_behaviour [OF on, of empty_world] miss served
    by (simp add: u)
  have c: "\<exists>r. fst (cacheFirstStrategy offline empty_world ?req) = Fulfilled (Resp r) \<and> status r = 404"
    using cacheFirst_behaviour [OF off, of empty_world] miss down
    by blast
  from a b c show ?thesis
    by blast
qed

subsection \<open>Activate\<close>

lemma promise_all_fulfilled: "promise_all (map Fulfilled xs) = Fulfilled xs"
  by (induction xs) simp_all

lemma delete_logged_fulfilled:
  assumes "\<forall>n. faults env (CachesDelete n) = None"
  shows "\<exists>bs w'. delete_logged env w ns = (map Fulfilled bs, w') \<and>
           caches w' = filter (\<lambda>p. fst p \<notin> set ns) (caches w) \<and>
           calls w' = calls w @ map CachesDelete ns"
proof (induction ns arbitrary: w)
  case Nil
  show ?case
    by simp
next
  case (Cons n ns)
  let ?w1 = "call (CachesDelete n)
      ((console_log w ''Deleting old cache:'')
        \<lparr>caches := filter (\<lambda>p. fst p \<noteq> n) (caches (console_log w ''Deleting old cache:''))\<rparr>)"
  from Cons.IH [of ?w1] obtain bs w' where
    rest: "delete_logged env ?w1 ns = (map Fulfilled bs, w')"
    and c: "caches w' = filter (\<lambda>p. fst p \<notin> set ns) (caches ?w1)"
    and t: "calls w' = calls ?w1 @ map CachesDelete ns"
    by blast
  have "delete_logged env w (n # ns) =
      (map Fulfilled ((n \<in> set (map fst (caches w))) # bs), w')"
    using assms rest by (simp add: caches_delete_def console_simps)
  moreover have "caches w' = filter (\<lambda>p. fst p \<notin> set (n # ns)) (caches w)"
    using c by (simp add: call_simps console_simps conj_commute)
  moreover have "calls w' = calls w @ map CachesDelete (n # ns)"
    using t by (simp add: call_simps console_simps)
  ultimately show ?case
    by blast
qed

lemma old_caches_filter:
  "filter (\<lambda>p. fst p \<notin> set (old_caches (map fst cs))) cs =
   filter (\<lambda>p. \<not> (prefix ''invomodo-'' (fst p) \<and> fst p \<noteq> STATIC_CACHE_NAME \<and>
                      fst p \<noteq> RUNTIME_CACHE_NAME)) cs"
  by (rule filter_cong) (auto simp: old_caches_def startsWith_prefix)

lemma length_le_one:
  assumes "distinct xs" and "set xs \<subseteq> {a}"
  shows "length xs \<le> 1"
proof -
  have "length xs = card (set xs)"
    using assms(1) by (simp add: distinct_card)
  also have "\<dots> \<le> card {a}"
    using assms(2) by (intro card_mono) simp_all
  finally show ?thesis
    by simp
qed

text \<open>
  C6. The activate step, when enumerating, deleting and claiming do not fail. The
  partitions left are exactly those of before whose name does not start with
  \<^verbatim>\<open>invomodo-\<close> or is one of the two current names; so every partition with the
  prefix and another name is gone. The calls made are the enumeration, the deletions,
  and last \<^verbatim>\<open>clients.claim()\<close>. Partition names being distinct, at most one partition
  named \<^verbatim>\<open>invomodo-static-...\<close> and at most one named \<^verbatim>\<open>invomodo-runtime-...\<close>
  is left.
\<close>

theorem activate_sweep:
  assumes "faults env CachesKeys = None"
    and "\<forall>n. faults env (CachesDelete n) = None"
    and "faults env ClientsClaim = None"
  shows "fst (activate_listener env w) = Fulfilled Undefined
    \<and> caches (snd (activate_listener env w)) =
        filter (\<lambda>p. \<not> (prefix ''invomodo-'' (fst p) \<and> fst p \<noteq> STATIC_CACHE_NAME \<and>
                           fst p \<noteq> RUNTIME_CACHE_NAME)) (caches w)
    \<and> (\<forall>n. prefix ''invomodo-'' n \<and> n \<noteq> STATIC_CACHE_NAME \<and> n \<noteq> RUNTIME_CACHE_NAME \<longrightarrow>
            n \<notin> fst ` set (caches (snd (activate_listener env w))))
    \<and> calls (snd (activate_listener env w)) =
        calls w @ [CachesKeys] @ map CachesDelete (old_caches (map fst (caches w))) @ [ClientsClaim]
    \<and> (distinct (map fst (caches w)) \<longrightarrow>
         length (filter (prefix ''invomodo-static-'')
                   (map fst (caches (snd (activate_listener env w))))) \<le> 1 \<and>
         length (filter (prefix ''invomodo-runtime-'')
                   (map fst (caches (snd (activate_listener env w))))) \<le> 1)"
proof -
  let ?w1 = "call CachesKeys (console_log w ''Service Worker activating...'')"
  let ?old = "old_caches (map fst (caches w))"
  let ?keep = "\<lambda>p. \<not> (prefix ''invomodo-'' (fst p) \<and> fst p \<noteq> STATIC_CACHE_NAME \<and>
                        fst p \<noteq> RUNTIME_CACHE_NAME)"
  from delete_logged_fulfilled [OF assms(2), of ?w1 ?old] obtain bs w2 where
    del: "delete_logged env ?w1 ?old = (map Fulfilled bs, w2)"
    and c2: "caches w2 = filter (\<lambda>p. fst p \<notin> set ?old) (caches ?w1)"
    and t2: "calls w2 = calls ?w1 @ map CachesDelete ?old"
    by blast
  have run: "activate_listener env w = (Fulfilled Undefined, call ClientsClaim w2)"
    using assms(1,3) del
    by (simp add: activate_listener_def caches_keys_def clients_claim_def console_simps
        promise_all_fulfilled)
  have left: "caches (snd (activate_listener env w)) = filter ?keep (caches w)"
    using c2 by (simp add: run call_simps console_simps old_caches_filter)
  have gone: "n \<notin> fst ` set (caches (snd (activate_listener env w)))"
    if "prefix ''invomodo-'' n \<and> n \<noteq> STATIC_CACHE_NAME \<and> n \<noteq> RUNTIME_CACHE_NAME" for n
    using that unfolding left by auto
  have trace: "calls (snd (activate_listener env w)) =
      calls w @ [CachesKeys] @ map CachesDelete ?old @ [ClientsClaim]"
    using t2 by (simp add: run call_simps console_simps)
  have one: "length (filter (prefix ''invomodo-static-'')
                 (map fst (caches (snd (activate_listener env w))))) \<le> 1 \<and>
             length (filter (prefix ''invomodo-runtime-'')
                 (map fst (caches (snd (activate_listener env w))))) \<le> 1"
    if d: "distinct (map fst (caches w))"
  proof -
    let ?names = "map fst (filter ?keep (caches w))"
    have dist: "distinct ?names"
      using d by (simp add: distinct_map_filter)
    have pre_s: "prefix ''invomodo-'' n" if "prefix ''invomodo-static-'' n" for n
      using that by (auto simp: prefix_def)
    have pre_r: "prefix ''invomodo-'' n" if "prefix ''invomodo-runtime-'' n" for n
      using that by (auto simp: prefix_def)
    have s: "set (filter (prefix ''invomodo-static-'') ?names) \<subseteq> {STATIC_CACHE_NAME}"
      using pre_s by (auto simp: RUNTIME_CACHE_NAME_def)
    have r: "set (filter (prefix ''invomodo-runtime-'') ?names) \<subseteq> {RUNTIME_CACHE_NAME}"
      using pre_r by (auto simp: STATIC_CACHE_NAME_def)
    have "length (filter (prefix ''invomodo-static-'') ?names) \<le> 1"
      using dist s by (intro length_le_one [of _ STATIC_CACHE_NAME] distinct_filter)
    moreover have "length (filter (prefix ''invomodo-runtime-'') ?names) \<le> 1"
      using dist r by (intro length_le_one [of _ RUNTIME_CACHE_NAME] distinct_filter)
    ultimately show ?thesis
      unfolding left by blast
  qed
  from run left gone trace one show ?thesis
    by (simp del: append.simps)
qed

theorem activate_sweep_witness:
  "map fst (caches (snd (activate_listener offline upgrade_world))) =
     [''invomodo-static-v1.0.0'', ''invomodo-runtime-v1.0.0'', ''fonts'']
   \<and> calls (snd (activate_listener offline upgrade_world)) =
       [CachesKeys, CachesDelete ''invomodo-static-v0.9.0'', ClientsClaim]
   \<and> ''invomodo-static-v0.9.0'' \<notin> fst ` set (caches (snd (activate_listener offline upgrade_world)))"
proof -
  have 1: "faults offline CachesKeys = None"
    by (simp add: offline_def)
  have 2: "\<forall>n. faults offline (CachesDelete n) = None"
    by (simp add: offline_def)
  have 3: "faults offline ClientsClaim = None"
    by (simp add: offline_def)
  have 4: "distinct (map fst (caches upgrade_world))"
    by (simp add: upgrade_world_def)
  have 5: "prefix ''invomodo-'' ''invomodo-static-v0.9.0'' \<and>
      ''invomodo-static-v0.9.0'' \<noteq> STATIC_CACHE_NAME \<and>
      ''invomodo-static-v0.9.0'' \<noteq> RUNTIME_CACHE_NAME"
    by (simp add: STATIC_CACHE_NAME_def RUNTIME_CACHE_NAME_def)
  from activate_sweep [OF 1 2 3, of upgrade_world] 4 5
  show ?thesis
    by (simp add: upgrade_world_def old_caches_def
        STATIC_CACHE_NAME_def RUNTIME_CACHE_NAME_def)
qed

subsection \<open>Install\<close>

lemma fetch_each_eq:
  "fetch_each env w us =
     (map (\<lambda>u. case net env u of None \<Rightarrow> Rejected ''Failed to fetch'' | Some r \<Rightarrow> Fulfilled r) us,
      w\<lparr>calls := calls w @ map Fetch us\<rparr>)"
  by (induction us arbitrary: w) (simp_all add: fetch_def call_def split: option.splits)

lemma all_ok_fetched:
  "all_ok (map (\<lambda>u. case net env u of None \<Rightarrow> Rejected e | Some r \<Rightarrow> Fulfilled r) us) = None
     \<longleftrightarrow> \<not> list_all (\<lambda>u. case net env u of None \<Rightarrow> False | Some r \<Rightarrow> ok r) us"
  by (induction us) (auto split: option.splits)

lemma store_frame:
  "calls (store n u r w) = calls w" "console (store n u r w) = console w"
  by (simp_all add: store_def)

lemma store_each_frame:
  "calls (store_each n es w) = calls w \<and> console (store_each n es w) = console w"
  by (induction n es w rule: store_each.induct) (simp_all add: store_frame)

lemma cache_addAll_cases:
  "(faults env (CacheAddAll n paths) = None \<and>
    list_all (\<lambda>a. case net env (resolveUrl env a) of None \<Rightarrow> False | Some r \<Rightarrow> ok r) paths \<longrightarrow>
      (\<exists>w'. cache_addAll env w n paths = (Fulfilled (), w') \<and>
            calls w' = calls w @ CacheAddAll n paths # map Fetch (map (resolveUrl env) paths) \<and>
            console w' = console w))
   \<and> (\<not> (faults env (CacheAddAll n paths) = None \<and>
          list_all (\<lambda>a. case net env (resolveUrl env a) of None \<Rightarrow> False | Some r \<Rightarrow> ok r) paths) \<longrightarrow>
      (\<exists>e w' fs. cache_addAll env w n paths = (Rejected e, w') \<and> caches w' = caches w \<and>
            calls w' = calls w @ CacheAddAll n paths # map Fetch fs \<and> console w' = console w))"
proof (cases "faults env (CacheAddAll n paths)")
  case (Some e)
  then have "cache_addAll env w n paths = (Rejected e, call (CacheAddAll n paths) w)"
    by (simp add: cache_addAll_def)
  moreover have "calls (call (CacheAddAll n paths) w) = calls w @ CacheAddAll n paths # map Fetch []"
    by (simp add: call_simps)
  ultimately show ?thesis
    using Some by (metis call_simps(1,3) option.distinct(1))
next
  case None
  let ?us = "map (resolveUrl env) paths"
  let ?w1 = "(call (CacheAddAll n paths) w)\<lparr>calls := calls (call (CacheAddAll n paths) w) @ map Fetch ?us\<rparr>"
  have all: "list_all (\<lambda>a. case net env (resolveUrl env a) of None \<Rightarrow> False | Some r \<Rightarrow> ok r) paths
      \<longleftrightarrow> list_all (\<lambda>u. case net env u of None \<Rightarrow> False | Some r \<Rightarrow> ok r) ?us"
    by (simp add: list_all_iff)
  show ?thesis
  proof (cases "list_all (\<lambda>u. case net env u of None \<Rightarrow> False | Some r \<Rightarrow> ok r) ?us")
    case True
    then obtain xs where "all_ok (map (\<lambda>u. case net env u of None \<Rightarrow> Rejected ''Failed to fetch''
        | Some r \<Rightarrow> Fulfilled r) ?us) = Some xs"
      using all_ok_fetched [where env = env and e = "''Failed to fetch''" and us = ?us] by auto
    then have "cache_addAll env w n paths = (Fulfilled (), store_each n (zip ?us xs) ?w1)"
      using None by (simp add: cache_addAll_def fetch_each_eq)
    moreover have "calls (store_each n (zip ?us xs) ?w1) =
        calls w @ CacheAddAll n paths # map Fetch ?us"
      by (simp add: store_each_frame call_simps)
    moreover have "console (store_each n (zip ?us xs) ?w1) = console w"
      by (simp add: store_each_frame call_simps)
    ultimately show ?thesis
      using None True all by simp
  next
    case False
    then have "all_ok (map (\<lambda>u. case net env u of None \<Rightarrow> Rejected ''Failed to fetch''
        | Some r \<Rightarrow> Fulfilled r) ?us) = None"
      using all_ok_fetched [where env = env and e = "''Failed to fetch''" and us = ?us] by blast
    then have "cache_addAll env w n paths = (Rejected ''Request failed'', ?w1)"
      using None by (simp add: cache_addAll_def fetch_each_eq)
    moreover have "caches ?w1 = caches w" "console ?w1 = console w"
      "calls ?w1 = calls w @ CacheAddAll n paths # map Fetch ?us"
      by (simp_all add: call_simps)
    ultimately show ?thesis
      using False all by blast
  qed
qed

lemma install_run:
  "fst (install_listener env w) = Fulfilled Undefined
   \<and> (batch_ok env \<longrightarrow>
        new_calls w (snd (install_listener env w)) =
          [CachesOpen STATIC_CACHE_NAME, CacheAddAll STATIC_CACHE_NAME STATIC_ASSETS]
          @ map Fetch (map (resolveUrl env) STATIC_ASSETS) @ [SkipWaiting])
   \<and> (\<not> batch_ok env \<longrightarrow>
        SkipWaiting \<notin> set (new_calls w (snd (install_listener env w))) \<and>
        (Error, ''Failed to cache static assets:'') \<in> set (console (snd (install_listener env w))) \<and>
        (\<forall>n. entries (snd (install_listener env w)) n = entries w n))"
proof (cases "faults env (CachesOpen STATIC_CACHE_NAME)")
  case (Some e)
  then have "install_listener env w =
      install_catch (call (CachesOpen STATIC_CACHE_NAME) (console_log w ''Service Worker installing...''))"
    by (simp add: install_listener_def caches_open_def)
  then show ?thesis
    using Some
    by (simp add: install_catch_def batch_ok_def new_calls_def call_simps console_simps entries_frame)
next
  case None
  let ?w0 = "console_log w ''Service Worker installing...''"
  from caches_open_fulfilled [OF None, of ?w0] obtain w1 where
    open1: "caches_open env ?w0 STATIC_CACHE_NAME = (Fulfilled STATIC_CACHE_NAME, w1)"
    and e1: "\<forall>m. entries w1 m = entries ?w0 m"
    and t1: "calls w1 = calls ?w0 @ [CachesOpen STATIC_CACHE_NAME]"
    and c1: "console w1 = console ?w0"
    by blast
  let ?w1 = "console_log w1 ''Caching static assets...''"
  show ?thesis
  proof (cases "batch_ok env")
    case True
    with cache_addAll_cases [of env STATIC_CACHE_NAME STATIC_ASSETS ?w1] obtain w2 where
      add: "cache_addAll env ?w1 STATIC_CACHE_NAME STATIC_ASSETS = (Fulfilled (), w2)"
      and t2: "calls w2 = calls ?w1 @ CacheAddAll STATIC_CACHE_NAME STATIC_ASSETS
          # map Fetch (map (resolveUrl env) STATIC_ASSETS)"
      by (auto simp: batch_ok_def)
    have "\<exists>w3. install_listener env w = (Fulfilled Undefined, w3) \<and> calls w3 = calls w2 @ [SkipWaiting]"
      using open1 add
      by (auto simp: install_listener_def skipWaiting_def install_catch_def call_simps console_simps
          split: option.splits)
    then show ?thesis
      using True t1 t2 by (auto simp: new_calls_def console_simps)
  next
    case False
    with None cache_addAll_cases [of env STATIC_CACHE_NAME STATIC_ASSETS ?w1] obtain e w2 fs where
      add: "cache_addAll env ?w1 STATIC_CACHE_NAME STATIC_ASSETS = (Rejected e, w2)"
      and c2: "caches w2 = caches ?w1"
      and t2: "calls w2 = calls ?w1 @ CacheAddAll STATIC_CACHE_NAME STATIC_ASSETS # map Fetch fs"
      by (auto simp: batch_ok_def)
    have run: "install_listener env w = install_catch w2"
      using open1 add by (simp add: install_listener_def)
    have "entries w2 n = entries w n" for n
      using c2 e1 by (simp add: entries_def console_simps)
    then show ?thesis
      using False t1 t2
      by (auto simp: run install_catch_def new_calls_def console_simps entries_frame)
  qed
qed

text \<open>
  C3. During the install step skip-waiting is requested exactly when the caching batch
  succeeded, and then as the last call, after the batch. When the batch failed the
  request is not made; the failure is logged and not rethrown: the promise given to
  \<^verbatim>\<open>waitUntil\<close> is fulfilled in either case.
\<close>

theorem install_skipWaiting_iff_batch_ok:
  "fst (install_listener env w) = Fulfilled Undefined
   \<and> (SkipWaiting \<in> set (new_calls w (snd (install_listener env w))) \<longleftrightarrow> batch_ok env)
   \<and> (batch_ok env \<longrightarrow>
        new_calls w (snd (install_listener env w)) =
          [CachesOpen STATIC_CACHE_NAME, CacheAddAll STATIC_CACHE_NAME STATIC_ASSETS]
          @ map Fetch (map (resolveUrl env) STATIC_ASSETS) @ [SkipWaiting])
   \<and> (\<not> batch_ok env \<longrightarrow>
        (Error, ''Failed to cache static assets:'') \<in> set (console (snd (install_listener env w))))"
  using install_run [of env w] by (cases "batch_ok env") auto

theorem install_skipWaiting_iff_batch_ok_witness:
  "batch_ok online
   \<and> new_calls empty_world (snd (install_listener online empty_world)) =
       [CachesOpen ''invomodo-static-v1.0.0'',
        CacheAddAll ''invomodo-static-v1.0.0''
          [''/'', ''/index.html'', ''/manifest.json'', ''/firebase_auth.js'',
           ''/pkg/secure_pwa.js'', ''/pkg/secure_pwa_bg.wasm''],
        Fetch ''https://app.example/'', Fetch ''https://app.example/index.html'',
        Fetch ''https://app.example/manifest.json'', Fetch ''https://app.example/firebase_auth.js'',
        Fetch ''https://app.example/pkg/secure_pwa.js'',
        Fetch ''https://app.example/pkg/secure_pwa_bg.wasm'', SkipWaiting]
   \<and> \<not> batch_ok offline
   \<and> SkipWaiting \<notin> set (new_calls empty_world (snd (install_listener offline empty_world)))
   \<and> (Error, ''Failed to cache static assets:'')
        \<in> set (console (snd (install_listener offline empty_world)))"
proof -
  have on: "batch_ok online"
    by (simp add: batch_ok_def online_def STATIC_ASSETS_def app_url_def ok_def served_def)
  have off: "\<not> batch_ok offline"
    by (simp add: batch_ok_def offline_def STATIC_ASSETS_def)
  from on off
    install_skipWaiting_iff_batch_ok [of online empty_world]
    install_skipWaiting_iff_batch_ok [of offline empty_world]
  show ?thesis
    by (simp add: STATIC_ASSETS_def STATIC_CACHE_NAME_def app_url_def online_def)
qed

text \<open>
  As the specification states it the property fails: with the network unreachable the batch fails and
  skip-waiting is not requested.
\<close>

theorem install_skipWaiting_counterexample:
  "\<not> batch_ok offline
   \<and> calls (snd (install_listener offline empty_world)) =
       [CachesOpen ''invomodo-static-v1.0.0'',
        CacheAddAll ''invomodo-static-v1.0.0''
          [''/'', ''/index.html'', ''/manifest.json'', ''/firebase_auth.js'',
           ''/pkg/secure_pwa.js'', ''/pkg/secure_pwa_bg.wasm''],
        Fetch ''https://app.example/'', Fetch ''https://app.example/index.html'',
        Fetch ''https://app.example/manifest.json'', Fetch ''https://app.example/firebase_auth.js'',
        Fetch ''https://app.example/pkg/secure_pwa.js'',
        Fetch ''https://app.example/pkg/secure_pwa_bg.wasm'']
   \<and> SkipWaiting \<notin> set (calls (snd (install_listener offline empty_world)))"
  by (simp add: batch_ok_def install_listener_def install_catch_def caches_open_def
      cache_addAll_def fetch_def call_def console_log_def console_error_def app_url_def
      STATIC_ASSETS_def STATIC_CACHE_NAME_def offline_def empty_world_def)

subsection \<open>Prefetch on demand, and the install batch when a fetch fails\<close>

lemma store_keeps_names: "fst ` set (caches (store n u r w)) = fst ` set (caches w)"
  using store_names [of n u r w] by (metis list.set_map)

lemma entries_calls_update: "entries (w\<lparr>calls := cs\<rparr>) n = entries w n"
  by (simp add: entries_def)

lemma cacheUrls_settle_entries:
  assumes "n \<in> fst ` set (caches w)"
  shows "map_of (entries (cacheUrls_settle env w n
             (zip us (map (\<lambda>u. case net env u of None \<Rightarrow> Rejected e0 | Some r \<Rightarrow> Fulfilled r) us))) n) x =
       (if x \<in> set us \<and> (\<exists>r. net env x = Some r \<and> ok r) \<and> faults env (CachePut n x) = None
        then net env x else map_of (entries w n) x)"
  using assms
proof (induction us arbitrary: w)
  case Nil
  show ?case
    by simp
next
  case (Cons u us)
  let ?f = "\<lambda>u. case net env u of None \<Rightarrow> Rejected e0 | Some r \<Rightarrow> Fulfilled r"
  let ?rest = "zip us (map ?f us)"
  show ?case
  proof (cases "net env u")
    case None
    let ?w1 = "console_warn w ''Failed to cache:''"
    have step: "cacheUrls_settle env w n (zip (u # us) (map ?f (u # us))) =
        cacheUrls_settle env ?w1 n ?rest"
      using None by simp
    have mem: "n \<in> fst ` set (caches ?w1)"
      using Cons.prems by (simp add: console_simps)
    show ?thesis
      unfolding step using Cons.IH [OF mem] None by (auto simp: entries_frame)
  next
    case (Some r)
    show ?thesis
    proof (cases "ok r")
      case False
      have step: "cacheUrls_settle env w n (zip (u # us) (map ?f (u # us))) =
          cacheUrls_settle env w n ?rest"
        using Some False by simp
      show ?thesis
        unfolding step using Cons.IH [OF Cons.prems] Some False by auto
    next
      case True
      show ?thesis
      proof (cases "faults env (CachePut n u)")
        case refused: (Some e)
        let ?w1 = "console_warn (call (CachePut n u) w) ''Failed to cache:''"
        have step: "cacheUrls_settle env w n (zip (u # us) (map ?f (u # us))) =
            cacheUrls_settle env ?w1 n ?rest"
          using Some True refused by (simp add: cache_put_def)
        have mem: "n \<in> fst ` set (caches ?w1)"
          using Cons.prems by (simp add: console_simps call_simps)
        show ?thesis
          unfolding step using Cons.IH [OF mem] refused by (auto simp: entries_frame)
      next
        case None
        let ?w1 = "console_log (call (CachePut n u) (store n u r w)) ''Cached:''"
        have step: "cacheUrls_settle env w n (zip (u # us) (map ?f (u # us))) =
            cacheUrls_settle env ?w1 n ?rest"
          using Some True None by (simp add: cache_put_def)
        have mem: "n \<in> fst ` set (caches ?w1)"
          using Cons.prems by (simp add: console_simps call_simps store_keeps_names)
        have stored: "map_of (entries ?w1 n) x = (if x = u then Some r else map_of (entries w n) x)"
          using Cons.prems by (simp add: entries_frame entries_store)
        show ?thesis
          unfolding step using Cons.IH [OF mem] stored Some True None by auto
      qed
    qed
  qed
qed

lemma cacheUrls_entries:
  assumes "faults env (CachesOpen RUNTIME_CACHE_NAME) = None"
  shows "map_of (entries (cacheUrls env w urls) RUNTIME_CACHE_NAME) x =
       (if x \<in> resolveUrl env ` set urls \<and> (\<exists>r. net env x = Some r \<and> ok r) \<and>
           faults env (CachePut RUNTIME_CACHE_NAME x) = None
        then net env x else map_of (entries w RUNTIME_CACHE_NAME) x)"
proof -
  let ?n = RUNTIME_CACHE_NAME
  let ?us = "map (resolveUrl env) urls"
  let ?f = "\<lambda>u. case net env u of None \<Rightarrow> Rejected ''Failed to fetch'' | Some r \<Rightarrow> Fulfilled r"
  from caches_open_fulfilled [OF assms, of w] obtain w1 where
    open1: "caches_open env w ?n = (Fulfilled ?n, w1)"
    and mem: "?n \<in> fst ` set (caches w1)"
    and same: "\<forall>m. entries w1 m = entries w m"
    by blast
  let ?w2 = "w1\<lparr>calls := calls w1 @ map Fetch ?us\<rparr>"
  have mem2: "?n \<in> fst ` set (caches ?w2)"
    using mem by simp
  have run: "cacheUrls env w urls =
      console_log (cacheUrls_settle env ?w2 ?n (zip ?us (map ?f ?us))) ''Finished caching requested URLs''"
    using open1 by (simp only: cacheUrls_def fetch_each_eq prod.case settled.case)
  show ?thesis
    unfolding run entries_frame cacheUrls_settle_entries [OF mem2]
    using same by (auto simp: entries_calls_update)
qed

text \<open>
  C4. When the fetch of a declared static asset fails during the install batch, the
  failure is caught and logged, so the promise given to \<^verbatim>\<open>waitUntil\<close> is fulfilled,
  not rejected: the install step does not fail. Prefetching on demand is best-effort:
  once the runtime partition is open, the partition's entry for a URL is afterwards the
  network's response when the URL was requested, its fetch answered with an ok response
  and its \<^verbatim>\<open>cache.put\<close> succeeded, and is what it was before otherwise, whatever
  happens to the other URLs of the list.
\<close>

theorem install_batch_failure_is_caught:
  "((\<exists>a\<in>set STATIC_ASSETS. net env (resolveUrl env a) = None) \<longrightarrow>
       fst (install_listener env w) = Fulfilled Undefined \<and>
       (Error, ''Failed to cache static assets:'') \<in> set (console (snd (install_listener env w))))
   \<and> (faults env (CachesOpen RUNTIME_CACHE_NAME) = None \<longrightarrow>
       (\<forall>x. map_of (entries (cacheUrls env w urls) RUNTIME_CACHE_NAME) x =
          (if x \<in> resolveUrl env ` set urls \<and> (\<exists>r. net env x = Some r \<and> ok r) \<and>
              faults env (CachePut RUNTIME_CACHE_NAME x) = None
           then net env x else map_of (entries w RUNTIME_CACHE_NAME) x)))"
proof -
  have install: "fst (install_listener env w) = Fulfilled Undefined \<and>
      (Error, ''Failed to cache static assets:'') \<in> set (console (snd (install_listener env w)))"
    if "\<exists>a\<in>set STATIC_ASSETS. net env (resolveUrl env a) = None"
  proof -
    from that obtain a where "a \<in> set STATIC_ASSETS" and "net env (resolveUrl env a) = None"
      by blast
    then have "\<not> list_all (\<lambda>a. case net env (resolveUrl env a) of None \<Rightarrow> False | Some r \<Rightarrow> ok r)
        STATIC_ASSETS"
      unfolding list_all_iff by force
    then have "\<not> batch_ok env"
      by (simp add: batch_ok_def)
    with install_run [of env w] show ?thesis
      by blast
  qed
  with cacheUrls_entries [of env w urls] show ?thesis
    by blast
qed

theorem install_batch_failure_is_caught_witness:
  "fst (install_listener flaky empty_world) = Fulfilled Undefined
   \<and> (Error, ''Failed to cache static assets:'')
        \<in> set (console (snd (install_listener flaky empty_world)))
   \<and> map_of (entries (cacheUrls flaky empty_world [''/missing.js'', ''/b.js'', ''a.js''])
               RUNTIME_CACHE_NAME) ''https://app.example/a.js'' = Some (served ''let a'')
   \<and> map_of (entries (cacheUrls flaky empty_world [''/missing.js'', ''/b.js'', ''a.js''])
               RUNTIME_CACHE_NAME) ''https://app.example/b.js'' = None
   \<and> map_of (entries (cacheUrls flaky empty_world [''/missing.js'', ''/b.js'', ''a.js''])
               RUNTIME_CACHE_NAME) ''https://app.example/missing.js'' = None
   \<and> map_of (entries (cacheUrls online shell_world [''a.js'']) RUNTIME_CACHE_NAME)
        ''https://app.example/a.js'' = Some (served ''https://app.example/a.js'')
   \<and> map_of (entries (cacheUrls online shell_world [''a.js'']) RUNTIME_CACHE_NAME)
        ''https://app.example/static/app.css'' = Some (served ''body{}'')"
proof -
  let ?urls = "[''/missing.js'', ''/b.js'', ''a.js'']"
  have 1: "\<exists>a\<in>set STATIC_ASSETS. net flaky (resolveUrl flaky a) = None"
    by (simp add: STATIC_ASSETS_def flaky_def app_url_def)
  have 2: "faults flaky (CachesOpen RUNTIME_CACHE_NAME) = None"
    "faults online (CachesOpen RUNTIME_CACHE_NAME) = None"
    by (simp_all add: flaky_def online_def)
  have 3: "resolveUrl flaky ` set ?urls =
      {''https://app.example/missing.js'', ''https://app.example/b.js'', ''https://app.example/a.js''}"
    "resolveUrl online ` set [''a.js''] = {''https://app.example/a.js''}"
    by (auto simp: flaky_def online_def app_url_def)
  have 4: "entries empty_world RUNTIME_CACHE_NAME = []"
    "entries shell_world RUNTIME_CACHE_NAME =
       [(''https://app.example/static/app.css'', served ''body{}'')]"
    by (simp_all add: entries_def empty_world_def shell_world_def RUNTIME_CACHE_NAME_def)
  have 5: "net flaky ''https://app.example/a.js'' = Some (served ''let a'')"
    "net flaky ''https://app.example/b.js'' = Some (served ''let b'')"
    "net flaky ''https://app.example/missing.js'' = None"
    "faults flaky (CachePut RUNTIME_CACHE_NAME ''https://app.example/a.js'') = None"
    "faults flaky (CachePut RUNTIME_CACHE_NAME ''https://app.example/b.js'') = Some ''Quota exceeded''"
    "net online ''https://app.example/a.js'' = Some (served ''https://app.example/a.js'')"
    "faults online (CachePut RUNTIME_CACHE_NAME ''https://app.example/a.js'') = None"
    by (simp_all add: flaky_def online_def RUNTIME_CACHE_NAME_def)
  have 6: "ok (served b)" for b
    by (simp add: ok_def served_def)
  from install_batch_failure_is_caught [of flaky empty_world ?urls] 1 2(1)
  have a: "fst (install_listener flaky empty_world) = Fulfilled Undefined"
    "(Error, ''Failed to cache static assets:'')
        \<in> set (console (snd (install_listener flaky empty_world)))"
    and b: "\<And>x. map_of (entries (cacheUrls flaky empty_world ?urls) RUNTIME_CACHE_NAME) x =
          (if x \<in> resolveUrl flaky ` set ?urls \<and> (\<exists>r. net flaky x = Some r \<and> ok r) \<and>
              faults flaky (CachePut RUNTIME_CACHE_NAME x) = None
           then net flaky x else map_of (entries empty_world RUNTIME_CACHE_NAME) x)"
    by blast+
  from install_batch_failure_is_caught [of online shell_world "[''a.js'']"] 2(2)
  have c: "\<And>x. map_of (entries (cacheUrls online shell_world [''a.js'']) RUNTIME_CACHE_NAME) x =
          (if x \<in> resolveUrl online ` set [''a.js''] \<and> (\<exists>r. net online x = Some r \<and> ok r) \<and>
              faults online (CachePut RUNTIME_CACHE_NAME x) = None
           then net online x else map_of (entries shell_world RUNTIME_CACHE_NAME) x)"
    by blast
  have b1: "map_of (entries (cacheUrls flaky empty_world ?urls) RUNTIME_CACHE_NAME)
      ''https://app.example/a.js'' = Some (served ''let a'')"
    unfolding b 3 by (simp add: 5 6)
  have b2: "map_of (entries (cacheUrls flaky empty_world ?urls) RUNTIME_CACHE_NAME)
      ''https://app.example/b.js'' = None"
    unfolding b 3 by (simp add: 4 5)
  have b3: "map_of (entries (cacheUrls flaky empty_world ?urls) RUNTIME_CACHE_NAME)
      ''https://app.example/missing.js'' = None"
    unfolding b 3 by (simp add: 4 5)
  have c1: "map_of (entries (cacheUrls online shell_world [''a.js'']) RUNTIME_CACHE_NAME)
      ''https://app.example/a.js'' = Some (served ''https://app.example/a.js'')"
    unfolding c 3 by (simp add: 5 6)
  have c2: "map_of (entries (cacheUrls online shell_world [''a.js'']) RUNTIME_CACHE_NAME)
      ''https://app.example/static/app.css'' = Some (served ''body{}'')"
    unfolding c 3 by (simp add: 4)
  from a b1 b2 b3 c1 c2 show ?thesis
    by blast
qed

text \<open>
  As the specification states it the property fails: with the network unreachable every fetch of the
  batch fails, and the promise given to \<^verbatim>\<open>waitUntil\<close> is fulfilled.
\<close>

theorem install_batch_failure_counterexample:
  "list_all (\<lambda>a. net offline (resolveUrl offline a) = None) STATIC_ASSETS
   \<and> install_listener offline empty_world =
       (Fulfilled Undefined,
        \<lparr>caches = [(''invomodo-static-v1.0.0'', [])],
         calls = [CachesOpen ''invomodo-static-v1.0.0'',
                  CacheAddAll ''invomodo-static-v1.0.0''
                    [''/'', ''/index.html'', ''/manifest.json'', ''/firebase_auth.js'',
                     ''/pkg/secure_pwa.js'', ''/pkg/secure_pwa_bg.wasm''],
                  Fetch ''https://app.example/'', Fetch ''https://app.example/index.html'',
                  Fetch ''https://app.example/manifest.json'',
                  Fetch ''https://app.example/firebase_auth.js'',
                  Fetch ''https://app.example/pkg/secure_pwa.js'',
                  Fetch ''https://app.example/pkg/secure_pwa_bg.wasm''],
         console = [(Log, ''Service Worker installing...''), (Log, ''Caching static assets...''),
                    (Error, ''Failed to cache static assets:'')],
         posted = []\<rparr>)"
  by (simp add: install_listener_def install_catch_def caches_open_def
      cache_addAll_def fetch_def call_def console_log_def console_error_def app_url_def
      STATIC_ASSETS_def STATIC_CACHE_NAME_def offline_def empty_world_def)

subsection \<open>Cache status\<close>











text \<open>A partition named \<^verbatim>\<open>__proto__\<close> is counted in the names and in the total, and has
  no details of its own.\<close>

lemma getCacheStatus_proto_partition:
  "fst (getCacheStatus offline proto_world) =
     Status \<lparr>cacheNames = [''__proto__'', ''invomodo-runtime-v1.0.0''],
             totalSize = 350,
             cacheDetails = [(''invomodo-runtime-v1.0.0'', \<lparr>itemCount = 1, size_bytes = 250\<rparr>)]\<rparr>"
  by (simp add: getCacheStatus_def caches_keys_def
      caches_open_def cache_keys_def cache_match_def blob_def entries_def call_def
      obj_set_def offline_def proto_world_def served_def)

end
